theory Spec2Isabelle
  imports Main
begin

section \<open>Exceptions\<close>

text \<open>
  Modelled from the spec: the exception classes are declared in Exceptions.hpp, which is not
  among the sources. Section 7 of the specification gives the taxonomy BadRequest,
  Unauthorized, StorageConnection and StorageSpaceLow as separate kinds of failure; each is
  a constructor of its own here, carrying the message the source builds. A handler
  \<^verbatim>\<open>catch (const BadRequestException&)\<close> therefore catches \<open>BadRequestException\<close> only.
  \<open>PocoException\<close> stands for \<^verbatim>\<open>Poco::Exception\<close> and its subclasses (network, syntax and
  JSON errors of the library), \<open>StdException\<close> for any other \<^verbatim>\<open>std::exception\<close>. All of them
  derive from \<^verbatim>\<open>std::exception\<close>.
\<close>

datatype exn =
    PocoException
  | BadRequestException
  | UnauthorizedRequestException string
  | StorageConnectionException string
  | StorageSpaceLowException string
  | StdException

fun isStorageSpaceLow :: "exn \<Rightarrow> bool" where
  "isStorageSpaceLow (StorageSpaceLowException m) = True"
| "isStorageSpaceLow e = False"

section \<open>Data model (Storage.hpp)\<close>

text \<open>
  \<^verbatim>\<open>Poco::URI\<close>, reduced to the components the storage layer reads and writes: the scheme,
  the authority (\<^verbatim>\<open>getAuthority\<close>), the path and the decoded query parameters in their
  order (\<^verbatim>\<open>getQueryParameters\<close> / \<^verbatim>\<open>setQueryParameters\<close>, a vector of pairs, so that a
  key may occur more than once).
\<close>

record URI =
  scheme :: string
  authority :: string
  path :: string
  queryParameters :: "(string \<times> string) list"

text \<open>\<^verbatim>\<open>struct LockContext\<close>. Time points of the steady clock are nanosecond counts.\<close>

record LockContext =
  supportsLocks :: bool
  isLocked :: bool
  lockToken :: string
  lastLockTime :: int
  lockFailureReason :: string

text \<open>\<^verbatim>\<open>StorageBase::FileInfo\<close>.\<close>

record FileInfo =
  filename :: string
  ownerId :: string
  modifiedTime :: string

text \<open>\<^verbatim>\<open>StorageBase::UploadResult\<close>; the fields are named after their getters.\<close>

datatype Result = OK | DISKFULL | UNAUTHORIZED | DOC_CHANGED | CONFLICT | FAILED

record UploadResult =
  getResult :: Result
  getSaveAsName :: string
  getSaveAsUrl :: string
  getReason :: string

text \<open>The two constructors of \<^verbatim>\<open>UploadResult\<close>.\<close>

definition UploadResult1 :: "Result \<Rightarrow> UploadResult" where
  "UploadResult1 r = \<lparr>getResult = r, getSaveAsName = [], getSaveAsUrl = [], getReason = []\<rparr>"

definition UploadResult2 :: "Result \<Rightarrow> string \<Rightarrow> UploadResult" where
  "UploadResult2 r msg = \<lparr>getResult = r, getSaveAsName = [], getSaveAsUrl = [], getReason = msg\<rparr>"

text \<open>\<^verbatim>\<open>StorageBase::AsyncUpload\<close>. \<open>NoneState\<close> is \<^verbatim>\<open>State::None\<close>.\<close>

datatype State = NoneState | Running | Error | Complete

record AsyncUpload =
  state :: State
  result :: UploadResult

text \<open>
  What the finished handler of an upload captures by value when the request is dispatched
  (what it will put into \<^verbatim>\<open>WopiUploadDetails\<close>, and the start time).
\<close>

record UploadSession =
  capturedFilePathAnonym :: string
  capturedUriAnonym :: string
  capturedSize :: nat
  capturedIsSaveAs :: bool
  capturedIsRename :: bool
  capturedStartTime :: int

text \<open>
  The members of \<^verbatim>\<open>StorageBase\<close> and \<^verbatim>\<open>WopiStorage\<close>, without the leading underscore.
  \<open>uploadHttpSession\<close> is the shared pointer \<^verbatim>\<open>_uploadHttpSession\<close>: \<open>None\<close> when it is
  null.
\<close>

record Storage =
  uri :: URI
  localStorePath :: string
  jailPath :: string
  jailedFilePath :: string
  jailedFilePathAnonym :: string
  fileInfo :: FileInfo
  isDownloaded :: bool
  forceSave :: bool
  isUserModified :: bool
  isAutosave :: bool
  isExitSave :: bool
  extendedData :: string
  fileUrl :: string
  wopiSaveDuration :: int
  uploadHttpSession :: "UploadSession option"

text \<open>\<^verbatim>\<open>WopiStorage::WopiUploadDetails\<close> (\<open>uploadSize\<close> is its member \<^verbatim>\<open>size\<close>).\<close>

record WopiUploadDetails =
  filePathAnonym :: string
  uriAnonym :: string
  httpResponseReason :: string
  httpResponseCode :: int
  uploadSize :: nat
  isSaveAs :: bool
  isRename :: bool

text \<open>
  An outgoing request: the verb, the target, the headers in the order they were set (content
  type and length are headers too; every name set here is a fixed literal) and the file
  whose bytes are the body, if any.
\<close>

record HttpRequest =
  verb :: string
  requestUri :: URI
  requestHeaders :: "(string \<times> string) list"
  bodyFile :: string

text \<open>
  A response. Its headers are the lookup that \<^verbatim>\<open>get\<close> performs on them (which the
  libraries make without regard to the case of the name): \<open>None\<close> for a header that the
  response does not carry.
\<close>

record HttpResponse =
  statusCode :: int
  reasonPhrase :: string
  responseHeaders :: "string \<Rightarrow> string option"
  body :: string

text \<open>\<^verbatim>\<open>header.set(key, value)\<close>: replaces the value of an existing key, else appends.\<close>

fun setHeader :: "string \<Rightarrow> string \<Rightarrow> (string \<times> string) list \<Rightarrow> (string \<times> string) list" where
  "setHeader k v [] = [(k, v)]"
| "setHeader k v ((k', v') # hs) = (if k' = k then (k, v) # hs else (k', v') # setHeader k v hs)"

text \<open>\<^verbatim>\<open>response.get(key, default)\<close>; \<^verbatim>\<open>get(key)\<close> is the same with the empty default.\<close>

definition getHeader :: "string \<Rightarrow> string \<Rightarrow> (string \<Rightarrow> string option) \<Rightarrow> string" where
  "getHeader k d headers = (case headers k of None \<Rightarrow> d | Some v \<Rightarrow> v)"

text \<open>
  The status constants of \<^verbatim>\<open>Poco::Net::HTTPResponse\<close> that the storage layer tests, the
  redirection limit of Storage.hpp and the one member of \<^verbatim>\<open>enum COOLStatusCode\<close>.
\<close>

definition HTTP_OK :: int where "HTTP_OK = 200"
definition HTTP_MOVED_PERMANENTLY :: int where "HTTP_MOVED_PERMANENTLY = 301"
definition HTTP_FOUND :: int where "HTTP_FOUND = 302"
definition HTTP_TEMPORARY_REDIRECT :: int where "HTTP_TEMPORARY_REDIRECT = 307"
definition HTTP_PERMANENT_REDIRECT :: int where "HTTP_PERMANENT_REDIRECT = 308"
definition HTTP_UNAUTHORIZED :: int where "HTTP_UNAUTHORIZED = 401"
definition HTTP_FORBIDDEN :: int where "HTTP_FORBIDDEN = 403"
definition HTTP_CONFLICT :: int where "HTTP_CONFLICT = 409"
definition HTTP_REQUEST_ENTITY_TOO_LARGE :: int where "HTTP_REQUEST_ENTITY_TOO_LARGE = 413"

definition RedirectionLimit :: nat where "RedirectionLimit = 21"

definition COOLStatusCode_DOC_CHANGED :: nat where "COOLStatusCode_DOC_CHANGED = 1010"

text \<open>The four-way status test that both redirect-following functions make.\<close>

definition isRedirection :: "int \<Rightarrow> bool" where
  "isRedirection code =
     (code = HTTP_FOUND \<or> code = HTTP_MOVED_PERMANENTLY \<or>
      code = HTTP_TEMPORARY_REDIRECT \<or> code = HTTP_PERMANENT_REDIRECT)"

section \<open>Collaborators\<close>

text \<open>
  Everything the storage layer calls and does not define: configuration flags and macros,
  the authorization object, the anonymizer, path and string helpers, the file system, the
  URI and JSON parsers (\<open>'j\<close> is the parsed JSON object) and the HTTP transport. A call
  that the source guards with a handler, or that the libraries document as throwing,
  returns \<open>Inl e\<close> when it throws \<open>e\<close>; the other helpers return normally.

  \<^item> \<open>parseURI\<close> is the constructor \<^verbatim>\<open>Poco::URI(const std::string&)\<close>;
  \<^item> \<open>parseJSON\<close> is \<^verbatim>\<open>JsonUtil::parseJSON\<close>: \<open>Inr None\<close> when it returns false;
  \<^item> \<open>findJSONString\<close>, \<open>findJSONBool\<close> are \<^verbatim>\<open>JsonUtil::findJSONValue\<close> at the two
    types: \<open>None\<close> when it returns false and leaves its output argument alone;
  \<^item> \<open>getJSONString\<close>, \<open>getJSONUnsigned\<close> are \<^verbatim>\<open>JsonUtil::getJSONValue<T>\<close>;
  \<^item> \<open>uriDecode\<close> is \<^verbatim>\<open>Poco::URI::decode\<close>; \<open>utf7\<close> is the \<^verbatim>\<open>iconv\<close> conversion
    from UTF-8 to UTF-7, \<open>None\<close> when opening or converting fails;
  \<^item> \<open>joinPath a b\<close> is \<^verbatim>\<open>Poco::Path(a, b).toString()\<close>, \<open>getExtension\<close> is
    \<^verbatim>\<open>Poco::Path(f).getExtension()\<close>, \<open>to_string\<close> is \<^verbatim>\<open>std::to_string\<close>;
  \<^item> \<open>createDirectories\<close> is \<^verbatim>\<open>Poco::File(path).createDirectories()\<close>, \<open>checkDiskSpace\<close>
    is \<^verbatim>\<open>FileUtil::checkDiskSpace\<close>, \<open>fileStat\<close> is \<^verbatim>\<open>FileUtil::Stat\<close>: the size when
    \<^verbatim>\<open>good()\<close>, else \<open>None\<close>;
  \<^item> \<open>initHttpRequest\<close> gives the common headers (user agent, authorization, proof,
    server id), all supplied by collaborators;
  \<^item> \<open>getHTTPClientSession\<close>, \<open>getHttpSession\<close> create a client session;
    \<open>postLock\<close> is \<^verbatim>\<open>sendRequest\<close>, \<^verbatim>\<open>receiveResponse\<close> and reading the body;
    \<open>syncRequest\<close>, \<open>syncDownload\<close> (with the destination path) and \<open>asyncRequest\<close>
    are the calls of the same names on \<^verbatim>\<open>http::Session\<close>.
\<close>

record 'j Env =
  AnonymizeUserData :: bool
  NoCapsForKit :: bool
  infoEnabled :: bool
  TO_UPLOAD_SUFFIX :: string
  UPLOADING_SUFFIX :: string
  authorizeURI :: "URI \<Rightarrow> URI"
  anonymizeUrl :: "string \<Rightarrow> string"
  toString :: "URI \<Rightarrow> string"
  joinPath :: "string \<Rightarrow> string \<Rightarrow> string"
  getExtension :: "string \<Rightarrow> string"
  to_string :: "nat \<Rightarrow> string"
  getHexString :: "nat \<Rightarrow> string"
  utf7 :: "string \<Rightarrow> string option"
  createDirectories :: "string \<Rightarrow> exn + unit"
  checkDiskSpace :: "string \<Rightarrow> bool"
  fileStat :: "string \<Rightarrow> nat option"
  parseURI :: "string \<Rightarrow> exn + URI"
  uriDecode :: "string \<Rightarrow> exn + string"
  parseJSON :: "string \<Rightarrow> exn + 'j option"
  findJSONString :: "'j \<Rightarrow> string \<Rightarrow> string option"
  findJSONBool :: "'j \<Rightarrow> string \<Rightarrow> bool option"
  getJSONString :: "'j \<Rightarrow> string \<Rightarrow> exn + string"
  getJSONUnsigned :: "'j \<Rightarrow> string \<Rightarrow> exn + nat"
  initHttpRequest :: "URI \<Rightarrow> exn + (string \<times> string) list"
  getHTTPClientSession :: "URI \<Rightarrow> exn + unit"
  getHttpSession :: "URI \<Rightarrow> exn + unit"
  postLock :: "HttpRequest \<Rightarrow> exn + HttpResponse"
  syncRequest :: "HttpRequest \<Rightarrow> exn + HttpResponse"
  syncDownload :: "HttpRequest \<Rightarrow> string \<Rightarrow> exn + HttpResponse"
  asyncRequest :: "HttpRequest \<Rightarrow> exn + unit"

section \<open>StorageBase: URI sanitizing and construction (Storage.hpp 192-206, 347-369)\<close>

text \<open>
  The loop of \<^verbatim>\<open>sanitizeUri\<close> over the query parameters: the value of the first parameter
  named \<^verbatim>\<open>access_token\<close> is cleared, and the loop breaks.
\<close>

fun clearAccessToken :: "(string \<times> string) list \<Rightarrow> (string \<times> string) list" where
  "clearAccessToken [] = []"
| "clearAccessToken ((k, v) # params) =
     (if k = ''access_token'' then (k, []) # params else (k, v) # clearAccessToken params)"

definition sanitizeUri :: "URI \<Rightarrow> URI" where
  "sanitizeUri u = u\<lparr>queryParameters := clearAccessToken (queryParameters u)\<rparr>"

definition setUri :: "Storage \<Rightarrow> URI \<Rightarrow> Storage" where
  "setUri st u = st\<lparr>uri := sanitizeUri u\<rparr>"

definition getUri :: "Storage \<Rightarrow> URI" where
  "getUri st = uri st"

text \<open>
  The constructor of \<^verbatim>\<open>WopiStorage\<close>, which runs the one of \<^verbatim>\<open>StorageBase\<close>: the members
  take their initial values and the URI goes through \<open>setUri\<close>.
\<close>

definition WopiStorage :: "URI \<Rightarrow> string \<Rightarrow> string \<Rightarrow> Storage" where
  "WopiStorage u localStorePath' jailPath' =
     setUri
       \<lparr>uri = \<lparr>scheme = [], authority = [], path = [], queryParameters = []\<rparr>,
        localStorePath = localStorePath', jailPath = jailPath',
        jailedFilePath = [], jailedFilePathAnonym = [],
        fileInfo = \<lparr>filename = [], ownerId = ''cool'', modifiedTime = []\<rparr>,
        isDownloaded = False, forceSave = False, isUserModified = False,
        isAutosave = False, isExitSave = False, extendedData = [], fileUrl = [],
        wopiSaveDuration = 0, uploadHttpSession = None\<rparr>
       u"

section \<open>StorageBase::allowedAlias and Util::matchRegex (Storage.cpp 315-341, Util.cpp 1141-1179)\<close>

text \<open>
  \<^verbatim>\<open>Poco::RegularExpression\<close> is a collaborator: \<open>re pattern subject\<close> is \<open>Inl e\<close> when
  compiling or matching throws, \<open>Inr None\<close> when there is no match, and
  \<open>Inr (Some (offset, length))\<close> for the match found, case-insensitively. \<open>fullMatch\<close> is
  the body of the loop of \<^verbatim>\<open>matchRegex\<close>: a throw is caught and skipped.
\<close>

definition fullMatch :: "(string \<Rightarrow> string \<Rightarrow> exn + (nat \<times> nat) option) \<Rightarrow> string \<Rightarrow> string \<Rightarrow> bool" where
  "fullMatch re pattern subject =
     (case re pattern subject of
        Inr (Some (offset, len)) \<Rightarrow> offset = 0 \<and> len = length subject
      | Inr None \<Rightarrow> False
      | Inl e \<Rightarrow> False)"

definition matchRegex :: "(string \<Rightarrow> string \<Rightarrow> exn + (nat \<times> nat) option) \<Rightarrow> string set \<Rightarrow> string \<Rightarrow> bool" where
  "matchRegex re S subject = (subject \<in> S \<or> (\<exists>pattern \<in> S. fullMatch re pattern subject))"

text \<open>
  The static members that \<open>allowedAlias\<close> reads and writes, and what it takes from the
  configuration: the value of \<^verbatim>\<open>storage.wopi.alias_groups[@mode]\<close> if configured
  (\<^verbatim>\<open>config::getString\<close> defaults it to \<^verbatim>\<open>"first"\<close>), \<^verbatim>\<open>Util::iequal\<close> and the regular
  expression engine.
\<close>

record HostTables =
  AllHosts :: "string set"
  FirstHost :: string

record AliasEnv =
  aliasGroupsMode :: "string option"
  iequal :: "string \<Rightarrow> string \<Rightarrow> bool"
  regex :: "string \<Rightarrow> string \<Rightarrow> exn + (nat \<times> nat) option"

definition compatMode :: "AliasEnv \<Rightarrow> bool" where
  "compatMode env =
     iequal env (case aliasGroupsMode env of None \<Rightarrow> ''first'' | Some m \<Rightarrow> m) ''compat''"

definition allowedAlias :: "AliasEnv \<Rightarrow> HostTables \<Rightarrow> URI \<Rightarrow> bool \<times> HostTables" where
  "allowedAlias env hosts u =
     (if compatMode env then (True, hosts)
      else if AllHosts hosts = {} then
        (if FirstHost hosts = [] then (True, hosts\<lparr>FirstHost := authority u\<rparr>)
         else if FirstHost hosts \<noteq> authority u then (False, hosts)
         else (True, hosts))
      else if \<not> matchRegex (regex env) (AllHosts hosts) (authority u) then (False, hosts)
      else (True, hosts))"

text \<open>Successive calls on the same process-wide tables: the results in order.\<close>

fun allowedAliasCalls :: "AliasEnv \<Rightarrow> HostTables \<Rightarrow> URI list \<Rightarrow> bool list" where
  "allowedAliasCalls env hosts [] = []"
| "allowedAliasCalls env hosts (u # us) =
     fst (allowedAlias env hosts u) # allowedAliasCalls env (snd (allowedAlias env hosts u)) us"

section \<open>LockContext (Storage.cpp 703-723)\<close>

definition initSupportsLocks :: "'j Env \<Rightarrow> LockContext \<Rightarrow> LockContext" where
  "initSupportsLocks env ctx =
     (if supportsLocks ctx then ctx
      else ctx\<lparr>supportsLocks := True, lockToken := ''cool-lock'' @ getHexString env 8\<rparr>)"

text \<open>
  \<^verbatim>\<open>COOLWSD::getConfigValue<int>("storage.wopi.locking.refresh", 900)\<close>: the configured
  value, or 900 when the key is not configured.
\<close>

definition refreshSeconds :: "int option \<Rightarrow> int" where
  "refreshSeconds conf = (case conf of None \<Rightarrow> 900 | Some v \<Rightarrow> v)"

text \<open>
  The difference of two time points of the steady clock is a signed 64-bit count of
  nanoseconds: \<open>wrap64\<close> is the value that 64-bit two's complement arithmetic gives for an
  integer, so \<open>wrap64 (a - b)\<close> is what the subtraction of the machine gives on \<open>a\<close> and \<open>b\<close>.
\<close>

definition wrap64 :: "int \<Rightarrow> int" where
  "wrap64 x = (x + 9223372036854775808) mod 18446744073709551616 - 9223372036854775808"

text \<open>
  \<^verbatim>\<open>std::chrono::duration_cast\<close> of a nanosecond duration to seconds and to milliseconds:
  integer division that truncates toward zero.
\<close>

definition duration_cast_seconds :: "int \<Rightarrow> int" where
  "duration_cast_seconds d =
     (if d < 0 then - ((- d) div 1000000000) else d div 1000000000)"


definition needsRefresh :: "int option \<Rightarrow> LockContext \<Rightarrow> int \<Rightarrow> bool" where
  "needsRefresh conf ctx now =
     (supportsLocks ctx \<and> isLocked ctx \<and> refreshSeconds conf > 0 \<and>
      duration_cast_seconds (wrap64 (now - lastLockTime ctx)) \<ge> refreshSeconds conf)"

section \<open>WopiStorage::updateLockState (Storage.cpp 1090-1165)\<close>

text \<open>
  The try block up to the response: the outcome of the exchange and the requests handed to
  the transport.
\<close>

definition lockExchange ::
  "'j Env \<Rightarrow> Storage \<Rightarrow> LockContext \<Rightarrow> bool \<Rightarrow> (exn + HttpResponse) \<times> HttpRequest list" where
  "lockExchange env st lockCtx lock =
     (let uriObject = authorizeURI env (getUri st) in
      case getHTTPClientSession env uriObject of
        Inl e \<Rightarrow> (Inl e, [])
      | Inr psession \<Rightarrow>
          (case initHttpRequest env uriObject of
             Inl e \<Rightarrow> (Inl e, [])
           | Inr hs \<Rightarrow>
               let h1 = setHeader ''X-WOPI-Override'' (if lock then ''LOCK'' else ''UNLOCK'') hs;
                   h2 = setHeader ''X-WOPI-Lock'' (lockToken lockCtx) h1;
                   h3 = (if extendedData st \<noteq> []
                         then setHeader ''X-LOOL-WOPI-ExtendedData'' (extendedData st)
                                (setHeader ''X-COOL-WOPI-ExtendedData'' (extendedData st) h2)
                         else h2);
                   request = \<lparr>verb = ''POST'', requestUri = uriObject,
                              requestHeaders = setHeader ''Content-Length'' (to_string env 0) h3,
                              bodyFile = []\<rparr>
               in (postLock env request, [request])))"

text \<open>
  The result is \<open>Inl e\<close> when an exception leaves the function (one that neither handler
  catches), else the returned flag, the lock context as the call leaves it and the requests
  handed to the transport. \<open>now\<close> is what \<^verbatim>\<open>steady_clock::now()\<close> returns.
\<close>

definition updateLockState ::
  "'j Env \<Rightarrow> Storage \<Rightarrow> LockContext \<Rightarrow> bool \<Rightarrow> int
     \<Rightarrow> exn + (bool \<times> LockContext \<times> HttpRequest list)" where
  "updateLockState env st lockCtx0 lock now =
     (let lockCtx = lockCtx0\<lparr>lockFailureReason := []\<rparr> in
      if \<not> supportsLocks lockCtx then Inr (True, lockCtx, [])
      else
        case lockExchange env st lockCtx lock of
          (Inr response, sent) \<Rightarrow>
            if statusCode response = HTTP_OK
            then Inr (True, lockCtx\<lparr>isLocked := lock, lastLockTime := now\<rparr>, sent)
            else
              let sMoreInfo = getHeader ''X-WOPI-LockFailureReason'' [] (responseHeaders response) in
              if sMoreInfo \<noteq> []
              then Inr (False, lockCtx\<lparr>lockFailureReason := sMoreInfo\<rparr>, sent)
              else Inr (False, lockCtx, sent)
        | (Inl e, sent) \<Rightarrow>
            if e = PocoException \<or> e = BadRequestException
            then Inr (False, lockCtx, sent)
            else Inl e)"

section \<open>WopiStorage::uploadLocalFileToStorage (Storage.cpp 1545-1550)\<close>

text \<open>
  The synchronous upload of the WOPI backend ignores all five arguments and touches neither
  the object nor the network: the model returns the result, the storage as it was and the
  requests issued.
\<close>

definition uploadLocalFileToStorage ::
  "Storage \<Rightarrow> 'auth \<Rightarrow> LockContext \<Rightarrow> string \<Rightarrow> string \<Rightarrow> bool
     \<Rightarrow> UploadResult \<times> Storage \<times> HttpRequest list" where
  "uploadLocalFileToStorage st auth lockCtx saveAsPath saveAsFilename isRename' =
     (UploadResult1 FAILED, st, [])"

section \<open>WopiStorage::handleUploadToStorageResponse (Storage.cpp 1552-1690)\<close>

text \<open>
  The logging block at the head of the try block. It runs when info logging is enabled; with
  anonymization on it parses the response and decodes the \<^verbatim>\<open>Url\<close> field. What it computes
  goes to the log and to the anonymization cache only, so the model keeps of it the one
  thing the caller can observe: the exception it raises, if any.
\<close>

definition logUploadResponse :: "'j Env \<Rightarrow> string \<Rightarrow> exn option" where
  "logUploadResponse env responseString =
     (if infoEnabled env \<and> AnonymizeUserData env then
        (case parseJSON env responseString of
           Inl e \<Rightarrow> Some e
         | Inr None \<Rightarrow> None
         | Inr (Some object) \<Rightarrow>
             (case findJSONString env object ''Url'' of
                None \<Rightarrow> None
              | Some url \<Rightarrow>
                  (case findJSONString env object ''Name'' of
                     None \<Rightarrow> None
                   | Some filename' \<Rightarrow>
                       (case uriDecode env url of Inl e \<Rightarrow> Some e | Inr decodedUrl \<Rightarrow> None))))
      else None)"

text \<open>
  The status branches of the try block, started from the result and the storage as they
  stand: the exception raised, if any, and the result and the storage as they stand when the
  block is left.
\<close>

definition interpretUploadResponse ::
  "'j Env \<Rightarrow> Storage \<Rightarrow> WopiUploadDetails \<Rightarrow> string \<Rightarrow> UploadResult
     \<Rightarrow> exn option \<times> UploadResult \<times> Storage" where
  "interpretUploadResponse env st details origResponseString result0 =
     (if httpResponseCode details = HTTP_OK then
        let result1 = result0\<lparr>getResult := OK\<rparr> in
        (case parseJSON env origResponseString of
           Inl e \<Rightarrow> (Some e, result1, st)
         | Inr None \<Rightarrow> (None, result1, st)
         | Inr (Some object) \<Rightarrow>
             (case getJSONString env object ''LastModifiedTime'' of
                Inl e \<Rightarrow> (Some e, result1, st)
              | Inr lastModifiedTime \<Rightarrow>
                  let st1 = st\<lparr>fileInfo := (fileInfo st)\<lparr>modifiedTime := lastModifiedTime\<rparr>\<rparr> in
                  if isSaveAs details \<or> isRename details then
                    (case getJSONString env object ''Name'' of
                       Inl e \<Rightarrow> (Some e, result1, st1)
                     | Inr name \<Rightarrow>
                         (case getJSONString env object ''Url'' of
                            Inl e \<Rightarrow> (Some e, result1, st1)
                          | Inr url \<Rightarrow>
                              (None, result1\<lparr>getSaveAsName := name, getSaveAsUrl := url\<rparr>,
                               st1\<lparr>forceSave := False\<rparr>)))
                  else (None, result1, st1\<lparr>forceSave := False\<rparr>)))
      else if httpResponseCode details = HTTP_REQUEST_ENTITY_TOO_LARGE then
        (None, result0\<lparr>getResult := DISKFULL\<rparr>, st)
      else if httpResponseCode details = HTTP_UNAUTHORIZED
              \<or> httpResponseCode details = HTTP_FORBIDDEN then
        (None, result0\<lparr>getResult := UNAUTHORIZED\<rparr>, st)
      else if httpResponseCode details = HTTP_CONFLICT then
        let result1 = result0\<lparr>getResult := CONFLICT\<rparr> in
        (case parseJSON env origResponseString of
           Inl e \<Rightarrow> (Some e, result1, st)
         | Inr None \<Rightarrow> (None, result1, st)
         | Inr (Some object) \<Rightarrow>
             (case getJSONUnsigned env object ''COOLStatusCode'' of
                Inl e \<Rightarrow> (Some e, result1, st)
              | Inr coolStatusCode \<Rightarrow>
                  (case getJSONUnsigned env object ''LOOLStatusCode'' of
                     Inl e \<Rightarrow> (Some e, result1, st)
                   | Inr loolStatusCode \<Rightarrow>
                       if coolStatusCode = COOLStatusCode_DOC_CHANGED
                          \<or> loolStatusCode = COOLStatusCode_DOC_CHANGED
                       then (None, result1\<lparr>getResult := DOC_CHANGED\<rparr>, st)
                       else (None, result1, st))))
      else (None, result0\<lparr>getResult := FAILED\<rparr>, st))"

text \<open>The try block as a whole: the logging block, then the status branches.\<close>

definition handleUploadTry ::
  "'j Env \<Rightarrow> Storage \<Rightarrow> WopiUploadDetails \<Rightarrow> string \<Rightarrow> exn option \<times> UploadResult \<times> Storage" where
  "handleUploadTry env st details responseString =
     (let result0 = UploadResult2 FAILED responseString in
      case logUploadResponse env responseString of
        Some e \<Rightarrow> (Some e, result0, st)
      | None \<Rightarrow> interpretUploadResponse env st details responseString result0)"

text \<open>
  The function: the try block under its two handlers, for \<^verbatim>\<open>Poco::Exception\<close> and for
  \<^verbatim>\<open>BadRequestException\<close>, which both set the result to FAILED. Any other exception leaves
  the function (\<open>Inl e\<close>).
\<close>

definition handleUploadToStorageResponse ::
  "'j Env \<Rightarrow> Storage \<Rightarrow> WopiUploadDetails \<Rightarrow> string \<Rightarrow> (exn + UploadResult) \<times> Storage" where
  "handleUploadToStorageResponse env st details responseString =
     (case handleUploadTry env st details responseString of
        (None, result', st') \<Rightarrow> (Inr result', st')
      | (Some e, result', st') \<Rightarrow>
          if e = PocoException \<or> e = BadRequestException
          then (Inr (result'\<lparr>getResult := FAILED\<rparr>), st')
          else (Inl e, st'))"

section \<open>WopiStorage::downloadDocument (Storage.cpp 1242-1321)\<close>

text \<open>
  \<^verbatim>\<open>StorageBase::getLocalRootPath\<close> (Storage.cpp 76-90): the root path is the jail path,
  without its leading slash, under the local store path; the directories are created, which
  may throw, and the path is returned.
\<close>

definition localRootPath :: "'j Env \<Rightarrow> Storage \<Rightarrow> string" where
  "localRootPath env st =
     joinPath env (localStorePath st)
       (case jailPath st of [] \<Rightarrow> [] | c # cs \<Rightarrow> if c = CHR ''/'' then cs else c # cs)"

definition getLocalRootPath :: "'j Env \<Rightarrow> Storage \<Rightarrow> exn + string" where
  "getLocalRootPath env st =
     (case createDirectories env (localRootPath env st) of
        Inl e \<Rightarrow> Inl e
      | Inr u \<Rightarrow> Inr (localRootPath env st))"

text \<open>
  The result, the storage as the call leaves it, and the requests handed to the transport in
  order. The session and the request are made first, then the destination directory is
  created and the destination path set, then the disk space is checked, then the download
  runs; none of this is under a handler. The
  budget \<^verbatim>\<open>unsigned redirectLimit\<close> is a natural number: it is decremented only where it
  was tested to be non-zero, so it never wraps.
\<close>

fun downloadDocument ::
  "'j Env \<Rightarrow> Storage \<Rightarrow> URI \<Rightarrow> string \<Rightarrow> nat \<Rightarrow> (exn + string) \<times> Storage \<times> HttpRequest list" where
  "downloadDocument env st uriObject uriAnonym' redirectLimit =
     (case getHttpSession env uriObject of
        Inl e \<Rightarrow> (Inl e, st, [])
      | Inr httpSession \<Rightarrow>
     (case initHttpRequest env uriObject of
        Inl e \<Rightarrow> (Inl e, st, [])
      | Inr hs \<Rightarrow>
     (case getLocalRootPath env st of
        Inl e \<Rightarrow> (Inl e, st, [])
      | Inr localRoot \<Rightarrow>
          let httpRequest = \<lparr>verb = ''GET'', requestUri = uriObject, requestHeaders = hs,
                             bodyFile = []\<rparr>;
              st1 = st\<lparr>jailedFilePath := joinPath env localRoot (filename (fileInfo st))\<rparr>;
              st2 = st1\<lparr>jailedFilePathAnonym := anonymizeUrl env (jailedFilePath st1)\<rparr>
          in
          if \<not> checkDiskSpace env (jailedFilePath st2) then
            (Inl (StorageSpaceLowException (''Low disk space for '' @ jailedFilePathAnonym st2)),
             st2, [])
          else
            (case syncDownload env httpRequest (jailedFilePath st2) of
               Inl e \<Rightarrow> (Inl e, st2, [httpRequest])
             | Inr httpResponse \<Rightarrow>
                 if statusCode httpResponse = HTTP_OK then
                   (Inr (if NoCapsForKit env then jailedFilePath st2
                         else joinPath env (jailPath st2) (filename (fileInfo st2))),
                    st2\<lparr>isDownloaded := True\<rparr>, [httpRequest])
                 else if isRedirection (statusCode httpResponse) then
                   (if redirectLimit \<noteq> 0 then
                      (case parseURI env (getHeader ''Location'' [] (responseHeaders httpResponse)) of
                         Inl e \<Rightarrow> (Inl e, st2, [httpRequest])
                       | Inr redirectUriObject \<Rightarrow>
                           (case downloadDocument env st2 redirectUriObject uriAnonym'
                                   (redirectLimit - 1) of
                              (r, st3, sent) \<Rightarrow> (r, st3, httpRequest # sent)))
                    else
                      (Inl (StorageConnectionException
                              (''WOPI::GetFile ['' @ uriAnonym'
                               @ ''] failed: redirected too many times'')),
                       st2, [httpRequest]))
                 else
                   (Inl (StorageConnectionException
                           (''WOPI::GetFile ['' @ uriAnonym' @ ''] failed: '' @ body httpResponse)),
                    st2, [httpRequest])))))"

text \<open>The defining equation unfolds for ever under the simplifier: it is applied by hand.\<close>

declare downloadDocument.simps [simp del]

section \<open>WopiStorage::downloadStorageFileToLocal (Storage.cpp 1168-1240)\<close>

text \<open>The last step: the download from the \<^verbatim>\<open>/contents\<close> URL of the stored URI.\<close>

definition contentsUri :: "'j Env \<Rightarrow> Storage \<Rightarrow> URI" where
  "contentsUri env st = authorizeURI env ((getUri st)\<lparr>path := path (getUri st) @ ''/contents''\<rparr>)"

definition downloadDefault ::
  "'j Env \<Rightarrow> Storage \<Rightarrow> (exn + string) \<times> Storage \<times> HttpRequest list" where
  "downloadDefault env st =
     (let uriObject = contentsUri env st;
          uriAnonym' = toString env
             ((getUri st)\<lparr>path := anonymizeUrl env (path (getUri st)) @ ''/contents''\<rparr>)
      in downloadDocument env st uriObject uriAnonym' RedirectionLimit)"

text \<open>
  A download from a URL given as a string: the URI is parsed inside the try block of the
  caller, so a syntax error of the URL is a failure of the attempt.
\<close>

definition downloadFrom ::
  "'j Env \<Rightarrow> Storage \<Rightarrow> string \<Rightarrow> (exn + string) \<times> Storage \<times> HttpRequest list" where
  "downloadFrom env st url =
     (case parseURI env url of
        Inl e \<Rightarrow> (Inl e, st, [])
      | Inr u \<Rightarrow> downloadDocument env st u (anonymizeUrl env url) RedirectionLimit)"

text \<open>
  Every exception of the model derives from \<^verbatim>\<open>std::exception\<close>, so the handler of the
  FileUrl attempt catches all of them but \<^verbatim>\<open>StorageSpaceLowException\<close>, which the handler
  before it rethrows. The other two handlers log and rethrow.
\<close>

definition downloadStorageFileToLocal ::
  "'j Env \<Rightarrow> Storage \<Rightarrow> string \<Rightarrow> (exn + string) \<times> Storage \<times> HttpRequest list" where
  "downloadStorageFileToLocal env st templateUri =
     (if templateUri \<noteq> [] then downloadFrom env st templateUri
      else if fileUrl st \<noteq> [] then
        (case downloadFrom env st (fileUrl st) of
           (Inr localPath, st1, sent1) \<Rightarrow> (Inr localPath, st1, sent1)
         | (Inl e, st1, sent1) \<Rightarrow>
             if isStorageSpaceLow e then (Inl e, st1, sent1)
             else (case downloadDefault env st1 of
                     (r, st2, sent2) \<Rightarrow> (r, st2, sent1 @ sent2)))
      else downloadDefault env st)"

section \<open>WopiStorage::getWOPIFileInfoForUri (Storage.cpp 774-925)\<close>

text \<open>
  \<^verbatim>\<open>WopiStorage::WOPIFileInfo\<close>, with the members that the storage layer itself reads back
  and a few of the others; the remaining user-interface flags are read from the JSON object
  in the same way and are left out.
\<close>

record WOPIFileInfo =
  getUserId :: string
  getUsername :: string
  getTemplateSource :: string
  getFileUrl :: string
  getUserCanWrite :: bool
  getSupportsLocks :: bool
  getSupportsRename :: bool

text \<open>\<^verbatim>\<open>findJSONValue\<close> into a variable that holds a default.\<close>

definition findString :: "'j Env \<Rightarrow> 'j \<Rightarrow> string \<Rightarrow> string \<Rightarrow> string" where
  "findString env object key dflt = (case findJSONString env object key of None \<Rightarrow> dflt | Some v \<Rightarrow> v)"

definition findBool :: "'j Env \<Rightarrow> 'j \<Rightarrow> string \<Rightarrow> bool \<Rightarrow> bool" where
  "findBool env object key dflt = (case findJSONBool env object key of None \<Rightarrow> dflt | Some v \<Rightarrow> v)"

definition WOPIFileInfo :: "'j Env \<Rightarrow> 'j \<Rightarrow> WOPIFileInfo" where
  "WOPIFileInfo env object =
     (let userId = findString env object ''UserId'' [];
          username = findString env object ''UserFriendlyName'' []
      in \<lparr>getUserId = userId,
          getUsername =
            (if username = []
             then (if userId \<noteq> [] then ''UnknownUser'' @ ''_'' @ userId else ''UnknownUser'')
             else username),
          getTemplateSource = findString env object ''TemplateSource'' [],
          getFileUrl = findString env object ''FileUrl'' [],
          getUserCanWrite = findBool env object ''UserCanWrite'' False,
          getSupportsLocks = findBool env object ''SupportsLocks'' False,
          getSupportsRename = findBool env object ''SupportsRename'' False\<rparr>)"

text \<open>
  The part after the try block: the response is parsed; a JSON object gives the file
  information, another payload is refused as unauthorized. Nothing here is under a handler.
\<close>

definition parseCheckFileInfo ::
  "'j Env \<Rightarrow> Storage \<Rightarrow> LockContext \<Rightarrow> string \<Rightarrow> string \<Rightarrow> HttpRequest list
     \<Rightarrow> (exn + WOPIFileInfo) \<times> Storage \<times> LockContext \<times> HttpRequest list" where
  "parseCheckFileInfo env st lockCtx uriAnonym' wopiResponse sent =
     (case parseJSON env wopiResponse of
        Inl e \<Rightarrow> (Inl e, st, lockCtx, sent)
      | Inr None \<Rightarrow>
          (Inl (UnauthorizedRequestException
                  (''Access denied. WOPI::CheckFileInfo failed on: '' @ uriAnonym')),
           st, lockCtx, sent)
      | Inr (Some object) \<Rightarrow>
          let fileInfo' = \<lparr>filename = findString env object ''BaseFileName'' [],
                           ownerId = findString env object ''OwnerId'' [],
                           modifiedTime = findString env object ''LastModifiedTime'' []\<rparr>;
              st1 = st\<lparr>fileInfo := fileInfo'\<rparr>;
              wopiInfo = WOPIFileInfo env object;
              lockCtx1 = (if getSupportsLocks wopiInfo then initSupportsLocks env lockCtx
                          else lockCtx);
              st2 = st1\<lparr>fileUrl := getFileUrl wopiInfo\<rparr>
          in (Inr wopiInfo, st2, lockCtx1, sent))"

text \<open>
  The two handlers of the try block, for an exception \<open>e\<close> raised in it while the response
  string holds \<open>wopiResponse\<close>: \<^verbatim>\<open>Poco::Exception\<close> is logged and rethrown,
  \<^verbatim>\<open>BadRequestException\<close> is logged and execution goes on after the block; any other
  exception passes.
\<close>

definition checkFileInfoCatch ::
  "'j Env \<Rightarrow> Storage \<Rightarrow> LockContext \<Rightarrow> string \<Rightarrow> string \<Rightarrow> exn \<Rightarrow> HttpRequest list
     \<Rightarrow> (exn + WOPIFileInfo) \<times> Storage \<times> LockContext \<times> HttpRequest list" where
  "checkFileInfoCatch env st lockCtx uriAnonym' wopiResponse e sent =
     (if e = BadRequestException then parseCheckFileInfo env st lockCtx uriAnonym' wopiResponse sent
      else (Inl e, st, lockCtx, sent))"

text \<open>The exchange with the host: the outcome and the requests handed to the transport.\<close>

definition checkFileInfoExchange ::
  "'j Env \<Rightarrow> URI \<Rightarrow> (exn + HttpResponse) \<times> HttpRequest list" where
  "checkFileInfoExchange env uriObject =
     (case getHttpSession env uriObject of
        Inl e \<Rightarrow> (Inl e, [])
      | Inr httpSession \<Rightarrow>
          (case initHttpRequest env uriObject of
             Inl e \<Rightarrow> (Inl e, [])
           | Inr hs \<Rightarrow>
               let httpRequest = \<lparr>verb = ''GET'', requestUri = uriObject, requestHeaders = hs,
                                  bodyFile = []\<rparr>
               in (syncRequest env httpRequest, [httpRequest])))"

text \<open>
  The result, the storage and the lock context as the call leaves them, and the requests
  handed to the transport in order. The recursive call stands inside the try block, so what
  it throws goes through the handlers of the caller too.
\<close>

fun getWOPIFileInfoForUri ::
  "'j Env \<Rightarrow> Storage \<Rightarrow> LockContext \<Rightarrow> URI \<Rightarrow> nat
     \<Rightarrow> (exn + WOPIFileInfo) \<times> Storage \<times> LockContext \<times> HttpRequest list" where
  "getWOPIFileInfoForUri env st lockCtx uriObject0 redirectLimit =
     (let uriObject = authorizeURI env uriObject0;
          uriAnonym' = anonymizeUrl env (toString env uriObject)
      in
      case checkFileInfoExchange env uriObject of
        (Inl e, sent) \<Rightarrow> checkFileInfoCatch env st lockCtx uriAnonym' [] e sent
      | (Inr httpResponse, sent) \<Rightarrow>
          if isRedirection (statusCode httpResponse) \<and> redirectLimit \<noteq> 0 then
            (case parseURI env (getHeader ''Location'' [] (responseHeaders httpResponse)) of
               Inl e \<Rightarrow> checkFileInfoCatch env st lockCtx uriAnonym' [] e sent
             | Inr redirectUriObject \<Rightarrow>
                 (case getWOPIFileInfoForUri env (setUri st redirectUriObject) lockCtx
                         redirectUriObject (redirectLimit - 1) of
                    (Inr wopiInfo, st', lockCtx', sent') \<Rightarrow>
                      (Inr wopiInfo, st', lockCtx', sent @ sent')
                  | (Inl e, st', lockCtx', sent') \<Rightarrow>
                      checkFileInfoCatch env st' lockCtx' uriAnonym' [] e (sent @ sent')))
          else
            let wopiResponse = body httpResponse in
            if statusCode httpResponse \<noteq> HTTP_OK then
              (if statusCode httpResponse = HTTP_FORBIDDEN then
                 checkFileInfoCatch env st lockCtx uriAnonym' wopiResponse
                   (UnauthorizedRequestException
                      (''Access denied, 403. WOPI::CheckFileInfo failed on: '' @ uriAnonym'))
                   sent
               else
                 checkFileInfoCatch env st lockCtx uriAnonym' wopiResponse
                   (StorageConnectionException (''WOPI::CheckFileInfo failed: '' @ wopiResponse))
                   sent)
            else parseCheckFileInfo env st lockCtx uriAnonym' wopiResponse sent)"

declare getWOPIFileInfoForUri.simps [simp del]

definition getWOPIFileInfo ::
  "'j Env \<Rightarrow> Storage \<Rightarrow> LockContext
     \<Rightarrow> (exn + WOPIFileInfo) \<times> Storage \<times> LockContext \<times> HttpRequest list" where
  "getWOPIFileInfo env st lockCtx = getWOPIFileInfoForUri env st lockCtx (getUri st) RedirectionLimit"

section \<open>Asynchronous upload (Storage.hpp 292-303, 631-637; Storage.cpp 1326-1543)\<close>

text \<open>
  The caller's callback is a \<^verbatim>\<open>std::function\<close>, which may be empty: the flag
  \<open>asyncUploadCallback\<close> says that it is not. What the model returns of it is the list of
  the arguments it was invoked with, in order.

  \<^verbatim>\<open>ScopedInvokeAsyncUploadCallback\<close>: its destructor invokes the callback, if there is one,
  with the argument it holds.
\<close>

definition ScopedInvokeAsyncUploadCallback :: "bool \<Rightarrow> AsyncUpload \<Rightarrow> AsyncUpload list" where
  "ScopedInvokeAsyncUploadCallback asyncUploadCallback arg =
     (if asyncUploadCallback then [arg] else [])"


definition queryLocalFileToStorageAsyncUploadState :: "Storage \<Rightarrow> AsyncUpload" where
  "queryLocalFileToStorageAsyncUploadState st =
     (if uploadHttpSession st \<noteq> None then \<lparr>state = Running, result = UploadResult1 OK\<rparr>
      else \<lparr>state = NoneState, result = UploadResult1 OK\<rparr>)"

definition getRootFilePathUploading :: "'j Env \<Rightarrow> Storage \<Rightarrow> string" where
  "getRootFilePathUploading env st = jailedFilePath st @ TO_UPLOAD_SUFFIX env @ UPLOADING_SUFFIX env"

text \<open>The headers of the upload request, set in the order of the source on the common ones.\<close>

definition boolString :: "bool \<Rightarrow> string" where
  "boolString b = (if b then ''true'' else ''false'')"

definition uploadHeaders ::
  "'j Env \<Rightarrow> Storage \<Rightarrow> LockContext \<Rightarrow> string \<Rightarrow> bool \<Rightarrow> bool \<Rightarrow> nat
     \<Rightarrow> (string \<times> string) list \<Rightarrow> (string \<times> string) list" where
  "uploadHeaders env st lockCtx saveAsFilename isSaveAs' isRename' size' hs =
     (let h1 = (if \<not> isSaveAs' \<and> supportsLocks lockCtx
                then setHeader ''X-WOPI-Lock'' (lockToken lockCtx) hs else hs);
          h2 =
            (if \<not> isSaveAs' \<and> \<not> isRename' then
               let a1 = setHeader ''X-WOPI-Override'' ''PUT'' h1;
                   a2 = setHeader ''X-COOL-WOPI-IsModifiedByUser'' (boolString (isUserModified st)) a1;
                   a3 = setHeader ''X-LOOL-WOPI-IsModifiedByUser'' (boolString (isUserModified st)) a2;
                   a4 = setHeader ''X-COOL-WOPI-IsAutosave'' (boolString (isAutosave st)) a3;
                   a5 = setHeader ''X-LOOL-WOPI-IsAutosave'' (boolString (isAutosave st)) a4;
                   a6 = setHeader ''X-COOL-WOPI-IsExitSave'' (boolString (isExitSave st)) a5;
                   a7 = setHeader ''X-LOOL-WOPI-IsExitSave'' (boolString (isExitSave st)) a6;
                   a8 = (if isExitSave st then setHeader ''Connection'' ''close'' a7 else a7);
                   a9 = (if extendedData st \<noteq> []
                         then setHeader ''X-LOOL-WOPI-ExtendedData'' (extendedData st)
                                (setHeader ''X-COOL-WOPI-ExtendedData'' (extendedData st) a8)
                         else a8)
               in (if \<not> forceSave st
                   then setHeader ''X-LOOL-WOPI-Timestamp'' (modifiedTime (fileInfo st))
                          (setHeader ''X-COOL-WOPI-Timestamp'' (modifiedTime (fileInfo st)) a9)
                   else a9)
             else
               let suggestedTarget =
                     (case utf7 env saveAsFilename of
                        None \<Rightarrow> CHR ''.'' # getExtension env saveAsFilename
                      | Some converted \<Rightarrow> converted)
               in (if isRename'
                   then setHeader ''X-WOPI-RequestedName'' suggestedTarget
                          (setHeader ''X-WOPI-Override'' ''RENAME_FILE'' h1)
                   else setHeader ''X-WOPI-SuggestedTarget'' suggestedTarget
                          (setHeader ''X-WOPI-Size'' (to_string env size')
                             (setHeader ''X-WOPI-Override'' ''PUT_RELATIVE'' h1))))
      in setHeader ''Content-Length'' (to_string env size')
           (setHeader ''Content-Type'' ''application/octet-stream'' h2))"

text \<open>
  The try block of the override of \<^verbatim>\<open>WopiStorage\<close>: the storage as the block leaves
  it, whether it ran to its \<^verbatim>\<open>return\<close> (otherwise one of the two handlers caught an
  exception; between them they catch every exception of the model, and neither resets
  \<open>uploadHttpSession\<close>), and the requests handed to the transport. \<open>session\<close> is what the
  finished handler captures.
\<close>

definition uploadTry ::
  "'j Env \<Rightarrow> Storage \<Rightarrow> LockContext \<Rightarrow> string \<Rightarrow> bool \<Rightarrow> bool \<Rightarrow> nat \<Rightarrow> string \<Rightarrow> URI
     \<Rightarrow> UploadSession \<Rightarrow> Storage \<times> bool \<times> HttpRequest list" where
  "uploadTry env st lockCtx saveAsFilename isSaveAs' isRename' size' filePath uriObject session =
     (case getHttpSession env uriObject of
        Inl e \<Rightarrow> (st, False, [])
      | Inr httpSession \<Rightarrow>
          let st1 = st\<lparr>uploadHttpSession := Some session\<rparr> in
          (case initHttpRequest env uriObject of
             Inl e \<Rightarrow> (st1, False, [])
           | Inr hs \<Rightarrow>
               let httpRequest =
                     \<lparr>verb = ''POST'', requestUri = uriObject,
                      requestHeaders =
                        uploadHeaders env st1 lockCtx saveAsFilename isSaveAs' isRename' size' hs,
                      bodyFile = filePath\<rparr>
               in
               (case asyncRequest env httpRequest of
                  Inl e \<Rightarrow> (st1, False, [httpRequest])
                | Inr u \<Rightarrow> (st1, True, [httpRequest]))))"

text \<open>
  The override of \<^verbatim>\<open>WopiStorage\<close>: the storage as the call leaves it, the invocations of
  the callback made before it returns, and the requests handed to the transport. \<open>now\<close> is
  the start time the finished handler captures.
\<close>

definition uploadLocalFileToStorageAsync ::
  "'j Env \<Rightarrow> Storage \<Rightarrow> LockContext \<Rightarrow> string \<Rightarrow> string \<Rightarrow> bool \<Rightarrow> bool \<Rightarrow> int
     \<Rightarrow> Storage \<times> AsyncUpload list \<times> HttpRequest list" where
  "uploadLocalFileToStorageAsync env st lockCtx saveAsPath saveAsFilename isRename'
       asyncUploadCallback now =
     (let arg0 = \<lparr>state = Error, result = UploadResult1 FAILED\<rparr> in
      if uploadHttpSession st \<noteq> None then
        (st, ScopedInvokeAsyncUploadCallback asyncUploadCallback arg0, [])
      else
        let isSaveAs' = (saveAsPath \<noteq> [] \<and> saveAsFilename \<noteq> []);
            filePath = (if isSaveAs' then saveAsPath else getRootFilePathUploading env st);
            filePathAnonym' = anonymizeUrl env filePath
        in
        case fileStat env filePath of
          None \<Rightarrow>
            (st,
             ScopedInvokeAsyncUploadCallback asyncUploadCallback
               \<lparr>state = Error, result = UploadResult2 FAILED ''File not found.''\<rparr>,
             [])
        | Some size' \<Rightarrow>
            let uriObject = authorizeURI env
                  ((getUri st)\<lparr>path := (if isSaveAs' \<or> isRename' then path (getUri st)
                                          else path (getUri st) @ ''/contents'')\<rparr>);
                uriAnonym' = anonymizeUrl env (toString env uriObject);
                session = \<lparr>capturedFilePathAnonym = filePathAnonym',
                           capturedUriAnonym = uriAnonym',
                           capturedSize = size',
                           capturedIsSaveAs = isSaveAs',
                           capturedIsRename = isRename',
                           capturedStartTime = now\<rparr>
            in
            (case uploadTry env st lockCtx saveAsFilename isSaveAs' isRename' size' filePath
                    uriObject session of
               (st', returned, sent) \<Rightarrow>
                 (st',
                  ScopedInvokeAsyncUploadCallback asyncUploadCallback
                    (if returned then \<lparr>state = Running, result = UploadResult1 OK\<rparr>
                     else \<lparr>state = Error, result = UploadResult2 FAILED ''Internal error.''\<rparr>),
                  sent)))"


section \<open>Redirect chains\<close>

text \<open>
  What one hop of each redirect-following function asks of the host, as a function of the
  URI alone: for the download, into the destination \<open>dest\<close>; for the metadata request, on
  the authorized URI.
\<close>

definition downloadExchange :: "'j Env \<Rightarrow> string \<Rightarrow> URI \<Rightarrow> exn + HttpResponse" where
  "downloadExchange env dest u =
     (case getHttpSession env u of
        Inl e \<Rightarrow> Inl e
      | Inr httpSession \<Rightarrow>
          (case initHttpRequest env u of
             Inl e \<Rightarrow> Inl e
           | Inr hs \<Rightarrow>
               syncDownload env
                 \<lparr>verb = ''GET'', requestUri = u, requestHeaders = hs, bodyFile = []\<rparr> dest))"

definition fetchExchange :: "'j Env \<Rightarrow> URI \<Rightarrow> exn + HttpResponse" where
  "fetchExchange env u = fst (checkFileInfoExchange env (authorizeURI env u))"

text \<open>
  \<open>followRedirects exchange parse n u\<close> is the URI reached from \<open>u\<close> after \<open>n\<close> redirections:
  each of the \<open>n\<close> responses has a redirection status and a \<^verbatim>\<open>Location\<close> that parses. It
  is \<open>None\<close> when the chain from \<open>u\<close> has fewer than \<open>n\<close> redirections.
\<close>

fun followRedirects ::
  "(URI \<Rightarrow> exn + HttpResponse) \<Rightarrow> (string \<Rightarrow> exn + URI) \<Rightarrow> nat \<Rightarrow> URI \<Rightarrow> URI option" where
  "followRedirects exchange parse 0 u = Some u"
| "followRedirects exchange parse (Suc n) u =
     (case exchange u of
        Inl e \<Rightarrow> None
      | Inr response \<Rightarrow>
          if isRedirection (statusCode response) then
            (case parse (getHeader ''Location'' [] (responseHeaders response)) of
               Inl e \<Rightarrow> None
             | Inr u' \<Rightarrow> followRedirects exchange parse n u')
          else None)"

text \<open>The path of the jailed file that a download writes to.\<close>

definition rootFilePath :: "'j Env \<Rightarrow> Storage \<Rightarrow> string" where
  "rootFilePath env st = joinPath env (localRootPath env st) (filename (fileInfo st))"

text \<open>The storage after the destination path is set: the inputs of the path are as before.\<close>

definition withRootFilePath :: "'j Env \<Rightarrow> Storage \<Rightarrow> Storage" where
  "withRootFilePath env st =
     st\<lparr>jailedFilePath := rootFilePath env st,
        jailedFilePathAnonym := anonymizeUrl env (rootFilePath env st)\<rparr>"

text \<open>The path a successful download returns.\<close>

definition localFilePath :: "'j Env \<Rightarrow> Storage \<Rightarrow> string" where
  "localFilePath env st =
     (if NoCapsForKit env then rootFilePath env st
      else joinPath env (jailPath st) (filename (fileInfo st)))"

section \<open>Upload response bodies\<close>

text \<open>
  The response body is JSON that carries the code for a document changed in storage, under
  either key.
\<close>

definition saysDocChanged :: "'j Env \<Rightarrow> string \<Rightarrow> bool" where
  "saysDocChanged env responseString =
     (case parseJSON env responseString of
        Inr (Some object) \<Rightarrow>
          getJSONUnsigned env object ''COOLStatusCode'' = Inr 1010
          \<or> getJSONUnsigned env object ''LOOLStatusCode'' = Inr 1010
      | Inr None \<Rightarrow> False
      | Inl e \<Rightarrow> False)"

text \<open>The table of section 4.6 of the specification.\<close>

definition statusToResult :: "int \<Rightarrow> bool \<Rightarrow> Result" where
  "statusToResult code docChanged =
     (if code = 200 then OK
      else if code = 413 then DISKFULL
      else if code = 401 \<or> code = 403 then UNAUTHORIZED
      else if code = 409 then (if docChanged then DOC_CHANGED else CONFLICT)
      else FAILED)"

section \<open>Example collaborators and inputs\<close>

text \<open>
  A small JSON object type, a parser that knows the two payloads of the scenarios of the
  specification and throws on a payload that opens a brace it does not know, and a host
  that answers by path: two redirections lead from \<^verbatim>\<open>/wopi/files/a\<close> to
  \<^verbatim>\<open>/wopi/files/1\<close>, and \<^verbatim>\<open>/loop\<close> redirects to itself for ever.
\<close>

datatype jvalue = JString string | JNumber nat | JBool bool

text \<open>Decimal digits, for \<^verbatim>\<open>std::to_string\<close> on a size.\<close>

fun decimal :: "nat \<Rightarrow> string" where
  "decimal n =
     (if n < 10 then [''0123456789'' ! n]
      else decimal (n div 10) @ [''0123456789'' ! (n mod 10)])"

declare decimal.simps [simp del]

definition scenarioA :: string where
  \<open>scenarioA = ''{"BaseFileName":"doc.odt","OwnerId":"u1","LastModifiedTime":"2024-01-01T00:00:00Z","UserCanWrite":true,"SupportsLocks":true}''\<close>

definition scenarioB :: string where
  \<open>scenarioB = ''{"COOLStatusCode":1010}''\<close>

definition exampleParseJSON :: "string \<Rightarrow> exn + (string \<times> jvalue) list option" where
  "exampleParseJSON s =
     (if s = scenarioB then Inr (Some [(''COOLStatusCode'', JNumber 1010)])
      else if s = scenarioA then
        Inr (Some [(''BaseFileName'', JString ''doc.odt''), (''OwnerId'', JString ''u1''),
                   (''LastModifiedTime'', JString ''2024-01-01T00:00:00Z''),
                   (''UserCanWrite'', JBool True), (''SupportsLocks'', JBool True)])
      else if CHR ''{'' \<in> set s then Inl PocoException
      else Inr None)"

definition response :: "int \<Rightarrow> (string \<times> string) list \<Rightarrow> string \<Rightarrow> HttpResponse" where
  "response code headers content =
     \<lparr>statusCode = code, reasonPhrase = [], responseHeaders = map_of headers, body = content\<rparr>"

definition exampleHost :: "HttpRequest \<Rightarrow> exn + HttpResponse" where
  "exampleHost request =
     (let p = path (requestUri request) in
      if p = ''/wopi/files/a'' then Inr (response 302 [(''Location'', ''/wopi/files/b'')] [])
      else if p = ''/wopi/files/b'' then Inr (response 307 [(''Location'', ''/wopi/files/1'')] [])
      else if p = ''/wopi/files/1'' then Inr (response 200 [] scenarioA)
      else if p = ''/wopi/files/1/contents'' then Inr (response 200 [] ''document bytes'')
      else if p = ''/loop'' then Inr (response 302 [(''Location'', ''/loop'')] [])
      else if p = ''/text'' then Inr (response 200 [] ''not json'')
      else Inr (response 404 [] []))"

definition examplePath :: "string \<Rightarrow> URI" where
  "examplePath p = \<lparr>scheme = ''https'', authority = ''wopi.example'', path = p, queryParameters = []\<rparr>"

definition exampleEnv :: "(string \<times> jvalue) list Env" where
  "exampleEnv =
     \<lparr>AnonymizeUserData = False, NoCapsForKit = False, infoEnabled = True,
      TO_UPLOAD_SUFFIX = ''.upload'', UPLOADING_SUFFIX = ''ing'',
      authorizeURI = (\<lambda>u. u),
      anonymizeUrl = (\<lambda>s. s),
      toString = (\<lambda>u. scheme u @ ''://'' @ authority u @ path u),
      joinPath = (\<lambda>a b. a @ ''/'' @ b),
      getExtension = (\<lambda>f. ''odt''),
      to_string = decimal,
      getHexString = (\<lambda>n. replicate n (CHR ''0'')),
      utf7 = (\<lambda>s. Some s),
      createDirectories = (\<lambda>p. Inr ()),
      checkDiskSpace = (\<lambda>p. True),
      fileStat = (\<lambda>p. Some 14),
      parseURI = (\<lambda>s. Inr (examplePath s)),
      uriDecode = (\<lambda>s. Inr s),
      parseJSON = exampleParseJSON,
      findJSONString = (\<lambda>object key. case map_of object key of Some (JString s) \<Rightarrow> Some s | _ \<Rightarrow> None),
      findJSONBool = (\<lambda>object key. case map_of object key of Some (JBool b) \<Rightarrow> Some b | _ \<Rightarrow> None),
      getJSONString = (\<lambda>object key. Inr (case map_of object key of Some (JString s) \<Rightarrow> s | _ \<Rightarrow> [])),
      getJSONUnsigned = (\<lambda>object key. Inr (case map_of object key of Some (JNumber n) \<Rightarrow> n | _ \<Rightarrow> 0)),
      initHttpRequest = (\<lambda>u. Inr [(''User-Agent'', ''COOLWSD'')]),
      getHTTPClientSession = (\<lambda>u. Inr ()),
      getHttpSession = (\<lambda>u. Inr ()),
      postLock = (\<lambda>request. Inr (response 200 [] [])),
      syncRequest = exampleHost,
      syncDownload = (\<lambda>request dest. exampleHost request),
      asyncRequest = (\<lambda>request. Inr ())\<rparr>"

definition exampleStorage :: Storage where
  "exampleStorage =
     (WopiStorage (examplePath ''/wopi/files/1'') ''/jails'' ''/user/docs/1'')
       \<lparr>fileInfo := \<lparr>filename = ''doc.odt'', ownerId = ''u1'', modifiedTime = ''2024-01-01T00:00:00Z''\<rparr>,
        jailedFilePath := ''/jails/user/docs/1/doc.odt''\<rparr>"

definition exampleLockContext :: LockContext where
  "exampleLockContext =
     \<lparr>supportsLocks = True, isLocked = False, lockToken = ''cool-lock00000000'',
      lastLockTime = 0, lockFailureReason = ''stale''\<rparr>"

definition exampleSession :: UploadSession where
  "exampleSession =
     \<lparr>capturedFilePathAnonym = ''/jails/user/docs/1/doc.odt.uploading'',
      capturedUriAnonym = ''https://wopi.example/wopi/files/1/contents'',
      capturedSize = 14, capturedIsSaveAs = False, capturedIsRename = False,
      capturedStartTime = 0\<rparr>"

definition exampleDetails :: "int \<Rightarrow> WopiUploadDetails" where
  "exampleDetails code =
     \<lparr>filePathAnonym = ''/jails/user/docs/1/doc.odt.uploading'',
      uriAnonym = ''https://wopi.example/wopi/files/1/contents'',
      httpResponseReason = [], httpResponseCode = code, uploadSize = 14,
      isSaveAs = False, isRename = False\<rparr>"

text \<open>
  An expression engine that knows a few patterns: \<^verbatim>\<open>.*\<close> matches every subject in full,
  \<^verbatim>\<open>[\<close> does not compile, \<^verbatim>\<open>WOPI.EXAMPLE\<close> matches \<^verbatim>\<open>wopi.example\<close> in full without
  regard to case, and \<^verbatim>\<open>example\<close> and \<^verbatim>\<open>wopi\<close> match only a part of it, at offsets 5 and 0.
\<close>

definition exampleAliasEnv :: AliasEnv where
  "exampleAliasEnv =
     \<lparr>aliasGroupsMode = Some ''first'',
      iequal = (\<lambda>a b. a = b),
      regex = (\<lambda>pattern subject.
                 if pattern = ''.*'' then Inr (Some (0, length subject))
                 else if pattern = ''['' then Inl PocoException
                 else if pattern = ''WOPI.EXAMPLE'' \<and> subject = ''wopi.example'' then Inr (Some (0, 12))
                 else if pattern = ''example'' \<and> subject = ''wopi.example'' then Inr (Some (5, 7))
                 else if pattern = ''wopi'' \<and> subject = ''wopi.example'' then Inr (Some (0, 4))
                 else Inr None)\<rparr>"

definition noHosts :: HostTables where
  "noHosts = \<lparr>AllHosts = {}, FirstHost = []\<rparr>"

section \<open>Claims\<close>

text \<open>Facts about the example inputs that several witnesses use.\<close>

lemma scenarioA_not_scenarioB: "scenarioA \<noteq> scenarioB"
  by (simp add: scenarioA_def scenarioB_def)

lemma triple_collapse: "fst x = a \<Longrightarrow> x = (a, fst (snd x), snd (snd x))"
  by (cases x) auto


lemma logUploadResponse_returns:
  assumes "parseJSON env responseString = Inr v"
    and "\<And>object url. v = Some object \<Longrightarrow> findJSONString env object ''Url'' = Some url
           \<Longrightarrow> \<exists>w. uriDecode env url = Inr w"
  shows "logUploadResponse env responseString = None"
proof (cases v)
  case None
  with assms(1) show ?thesis by (simp add: logUploadResponse_def)
next
  case (Some object)
  show ?thesis
  proof (cases "findJSONString env object ''Url''")
    case None
    with assms(1) Some show ?thesis by (simp add: logUploadResponse_def)
  next
    case (Some url)
    with assms(2) [OF \<open>v = Some object\<close>] obtain w where "uriDecode env url = Inr w" by blast
    with assms(1) \<open>v = Some object\<close> Some show ?thesis
      by (simp add: logUploadResponse_def split: option.splits)
  qed
qed

lemma interpretUploadResponse_returns:
  assumes "parseJSON env responseString = Inr v"
    and "\<And>object key. v = Some object \<Longrightarrow> \<exists>w. getJSONString env object key = Inr w"
    and "\<And>object key. v = Some object \<Longrightarrow> \<exists>w. getJSONUnsigned env object key = Inr w"
  shows "fst (interpretUploadResponse env st details responseString result0) = None"
proof (cases v)
  case None
  with assms(1) show ?thesis by (simp add: interpretUploadResponse_def Let_def)
next
  case (Some object)
  have s: "\<And>key. \<not> (\<exists>e. getJSONString env object key = Inl e)"
    using assms(2) [OF Some] by (metis Inl_Inr_False)
  have u: "\<And>key. \<not> (\<exists>e. getJSONUnsigned env object key = Inl e)"
    using assms(3) [OF Some] by (metis Inl_Inr_False)
  show ?thesis
    using s u assms(1) Some
    by (auto simp: interpretUploadResponse_def Let_def split: sum.splits)
qed

lemma interpretUploadResponse_result:
  assumes "fst (interpretUploadResponse env st details responseString result0) = None"
  shows "getResult (fst (snd (interpretUploadResponse env st details responseString result0)))
           = statusToResult (httpResponseCode details) (saysDocChanged env responseString)"
proof (cases "httpResponseCode details = 409")
  case True
  with assms show ?thesis
    by (auto simp: interpretUploadResponse_def statusToResult_def saysDocChanged_def Let_def
          HTTP_OK_def HTTP_REQUEST_ENTITY_TOO_LARGE_def HTTP_UNAUTHORIZED_def HTTP_FORBIDDEN_def
          HTTP_CONFLICT_def COOLStatusCode_DOC_CHANGED_def
          split: option.splits sum.splits)
next
  case False
  with assms show ?thesis
    by (auto simp: interpretUploadResponse_def statusToResult_def Let_def
          HTTP_OK_def HTTP_REQUEST_ENTITY_TOO_LARGE_def HTTP_UNAUTHORIZED_def HTTP_FORBIDDEN_def
          HTTP_CONFLICT_def
          split: option.splits sum.splits if_splits)
qed

lemma handleUploadTry_result:
  assumes "fst (handleUploadTry env st details responseString) = None"
  shows "getResult (fst (snd (handleUploadTry env st details responseString)))
           = statusToResult (httpResponseCode details) (saysDocChanged env responseString)"
proof (cases "logUploadResponse env responseString")
  case None
  with assms show ?thesis
    by (simp add: handleUploadTry_def interpretUploadResponse_result)
next
  case (Some e)
  with assms show ?thesis by (simp add: handleUploadTry_def)
qed

text \<open>
  C1, amended. When nothing is thrown while the response is interpreted, the kind of the
  upload result is a function of the status code and of the body: 200 gives OK, 413
  DISKFULL, 401 and 403 UNAUTHORIZED, 409 gives DOC_CHANGED when the body is JSON whose
  COOLStatusCode or LOOLStatusCode is 1010 and CONFLICT otherwise, and every other status
  gives FAILED. When a \<^verbatim>\<open>Poco::Exception\<close> or a \<^verbatim>\<open>BadRequestException\<close> is thrown while
  the response is interpreted, the kind is FAILED whatever the status. Nothing is thrown
  on a body on which the JSON parser returns normally, when the JSON getters return
  normally on the object it parsed, if any, and the URI decoder on the \<open>Url\<close> of that object,
  if it has one.
\<close>

theorem handleUploadToStorageResponse_mapping:
  "(fst (handleUploadTry env st details responseString) = None \<longrightarrow>
      (\<exists>res. fst (handleUploadToStorageResponse env st details responseString) = Inr res
         \<and> getResult res
             = statusToResult (httpResponseCode details) (saysDocChanged env responseString)))
   \<and> (fst (handleUploadTry env st details responseString) = Some e
        \<and> (e = PocoException \<or> e = BadRequestException) \<longrightarrow>
      (\<exists>res. fst (handleUploadToStorageResponse env st details responseString) = Inr res
         \<and> getResult res = FAILED))
   \<and> (parseJSON env responseString = Inr v
        \<and> (\<forall>object. v = Some object \<longrightarrow>
              (\<forall>key. \<exists>w. getJSONString env object key = Inr w)
              \<and> (\<forall>key. \<exists>w. getJSONUnsigned env object key = Inr w)
              \<and> (\<forall>url. findJSONString env object ''Url'' = Some url
                    \<longrightarrow> (\<exists>w. uriDecode env url = Inr w))) \<longrightarrow>
      fst (handleUploadTry env st details responseString) = None)"
proof (intro conjI impI)
  assume a: "fst (handleUploadTry env st details responseString) = None"
  obtain r s where t: "handleUploadTry env st details responseString = (None, r, s)"
    using a by (cases "handleUploadTry env st details responseString") auto
  from handleUploadTry_result [OF a] t
  show "\<exists>res. fst (handleUploadToStorageResponse env st details responseString) = Inr res
         \<and> getResult res
             = statusToResult (httpResponseCode details) (saysDocChanged env responseString)"
    by (simp add: handleUploadToStorageResponse_def)
next
  assume a: "fst (handleUploadTry env st details responseString) = Some e
        \<and> (e = PocoException \<or> e = BadRequestException)"
  then obtain r s where t: "handleUploadTry env st details responseString = (Some e, r, s)"
    by (cases "handleUploadTry env st details responseString") auto
  from a t
  show "\<exists>res. fst (handleUploadToStorageResponse env st details responseString) = Inr res
         \<and> getResult res = FAILED"
    by (auto simp: handleUploadToStorageResponse_def)
next
  assume a: "parseJSON env responseString = Inr v
        \<and> (\<forall>object. v = Some object \<longrightarrow>
              (\<forall>key. \<exists>w. getJSONString env object key = Inr w)
              \<and> (\<forall>key. \<exists>w. getJSONUnsigned env object key = Inr w)
              \<and> (\<forall>url. findJSONString env object ''Url'' = Some url
                    \<longrightarrow> (\<exists>w. uriDecode env url = Inr w)))"
  then have p: "parseJSON env responseString = Inr v" by simp
  have "logUploadResponse env responseString = None"
    using a by (intro logUploadResponse_returns [OF p]) blast
  moreover
  have "fst (interpretUploadResponse env st details responseString
               (UploadResult2 FAILED responseString)) = None"
    using a by (intro interpretUploadResponse_returns [OF p]) blast+
  ultimately show "fst (handleUploadTry env st details responseString) = None"
    by (simp add: handleUploadTry_def)
qed

lemma example_scenarioB:
  "handleUploadTry exampleEnv exampleStorage (exampleDetails 409) scenarioB =
     (None, UploadResult2 DOC_CHANGED scenarioB, exampleStorage)"
  by (simp add: handleUploadTry_def logUploadResponse_def interpretUploadResponse_def
        exampleEnv_def exampleDetails_def exampleParseJSON_def UploadResult2_def Let_def
        HTTP_OK_def HTTP_REQUEST_ENTITY_TOO_LARGE_def HTTP_UNAUTHORIZED_def HTTP_FORBIDDEN_def
        HTTP_CONFLICT_def COOLStatusCode_DOC_CHANGED_def)

lemma example_plain_conflict:
  "fst (handleUploadTry exampleEnv exampleStorage (exampleDetails 409) ''conflict'') = None"
  by (simp add: handleUploadTry_def logUploadResponse_def interpretUploadResponse_def
        exampleEnv_def exampleDetails_def exampleParseJSON_def scenarioA_def scenarioB_def
        UploadResult2_def Let_def
        HTTP_OK_def HTTP_REQUEST_ENTITY_TOO_LARGE_def HTTP_UNAUTHORIZED_def HTTP_FORBIDDEN_def
        HTTP_CONFLICT_def)

lemma example_broken_json:
  "fst (handleUploadTry exampleEnv exampleStorage (exampleDetails 200) ''{oops'') = Some PocoException"
  by (simp add: handleUploadTry_def logUploadResponse_def interpretUploadResponse_def
        exampleEnv_def exampleDetails_def exampleParseJSON_def scenarioA_def scenarioB_def
        UploadResult2_def Let_def HTTP_OK_def)

theorem handleUploadToStorageResponse_mapping_witness:
  "(\<exists>res. fst (handleUploadToStorageResponse exampleEnv exampleStorage (exampleDetails 409) scenarioB)
            = Inr res \<and> getResult res = DOC_CHANGED)
   \<and> (\<exists>res. fst (handleUploadToStorageResponse exampleEnv exampleStorage (exampleDetails 409) ''conflict'')
            = Inr res \<and> getResult res = CONFLICT)
   \<and> (\<exists>res. fst (handleUploadToStorageResponse exampleEnv exampleStorage (exampleDetails 200) ''{oops'')
            = Inr res \<and> getResult res = FAILED)
   \<and> parseJSON exampleEnv scenarioB = Inr (Some [(''COOLStatusCode'', JNumber 1010)])
   \<and> fst (handleUploadTry exampleEnv exampleStorage (exampleDetails 409) scenarioB) = None
   \<and> parseJSON exampleEnv ''conflict'' = Inr None
   \<and> fst (handleUploadTry exampleEnv exampleStorage (exampleDetails 200) ''conflict'') = None"
proof -
  have b: "saysDocChanged exampleEnv scenarioB"
    by (simp add: saysDocChanged_def exampleEnv_def exampleParseJSON_def)
  have c: "\<not> saysDocChanged exampleEnv ''conflict''"
    by (simp add: saysDocChanged_def exampleEnv_def exampleParseJSON_def scenarioA_def scenarioB_def)
  have 1: "\<exists>res. fst (handleUploadToStorageResponse exampleEnv exampleStorage (exampleDetails 409) scenarioB)
            = Inr res \<and> getResult res = DOC_CHANGED"
    using handleUploadToStorageResponse_mapping [where env = exampleEnv and st = exampleStorage
        and details = "exampleDetails 409" and responseString = scenarioB, THEN conjunct1]
      example_scenarioB b
    by (simp add: statusToResult_def exampleDetails_def)
  have 2: "\<exists>res. fst (handleUploadToStorageResponse exampleEnv exampleStorage (exampleDetails 409) ''conflict'')
            = Inr res \<and> getResult res = CONFLICT"
    using handleUploadToStorageResponse_mapping [where env = exampleEnv and st = exampleStorage
        and details = "exampleDetails 409" and responseString = "''conflict''", THEN conjunct1]
      example_plain_conflict c
    by (simp add: statusToResult_def exampleDetails_def)
  have 3: "\<exists>res. fst (handleUploadToStorageResponse exampleEnv exampleStorage (exampleDetails 200) ''{oops'')
            = Inr res \<and> getResult res = FAILED"
    using handleUploadToStorageResponse_mapping [where env = exampleEnv and st = exampleStorage
        and details = "exampleDetails 200" and responseString = "''{oops''"
        and e = PocoException, THEN conjunct2, THEN conjunct1]
      example_broken_json
    by simp
  have p4: "parseJSON exampleEnv scenarioB = Inr (Some [(''COOLStatusCode'', JNumber 1010)])"
    by (simp add: exampleEnv_def exampleParseJSON_def)
  have 4: "fst (handleUploadTry exampleEnv exampleStorage (exampleDetails 409) scenarioB) = None"
    using handleUploadToStorageResponse_mapping
        [where env = exampleEnv and st = exampleStorage
        and details = "exampleDetails 409" and responseString = scenarioB
        and v = "Some [(''COOLStatusCode'', JNumber 1010)]",
        THEN conjunct2, THEN conjunct2] p4
    by (simp add: exampleEnv_def)
  have p5: "parseJSON exampleEnv ''conflict'' = Inr None"
    by (simp add: exampleEnv_def exampleParseJSON_def scenarioA_def scenarioB_def)
  have 5: "fst (handleUploadTry exampleEnv exampleStorage (exampleDetails 200) ''conflict'') = None"
    using handleUploadToStorageResponse_mapping
        [where env = exampleEnv and st = exampleStorage
        and details = "exampleDetails 200" and responseString = "''conflict''"
        and v = None, THEN conjunct2, THEN conjunct2] p5
    by simp
  from 1 2 3 p4 4 p5 5 show ?thesis by blast
qed

text \<open>
  The claim as it stands fails when the JSON parser throws on the body: a 200 and a 409
  both give FAILED.
\<close>

theorem handleUploadToStorageResponse_counterexample:
  "httpResponseCode (exampleDetails 200) = 200
   \<and> fst (handleUploadToStorageResponse exampleEnv exampleStorage (exampleDetails 200) ''{oops'')
       = Inr (UploadResult2 FAILED ''{oops'')
   \<and> httpResponseCode (exampleDetails 409) = 409
   \<and> fst (handleUploadToStorageResponse exampleEnv exampleStorage (exampleDetails 409) ''{oops'')
       = Inr (UploadResult2 FAILED ''{oops'')"
  by (simp add: handleUploadToStorageResponse_def handleUploadTry_def logUploadResponse_def
        interpretUploadResponse_def exampleEnv_def exampleDetails_def exampleParseJSON_def
        scenarioA_def scenarioB_def UploadResult2_def Let_def
        HTTP_OK_def HTTP_REQUEST_ENTITY_TOO_LARGE_def HTTP_UNAUTHORIZED_def HTTP_FORBIDDEN_def
        HTTP_CONFLICT_def)


lemma isRedirection_not_OK: "isRedirection code \<Longrightarrow> code \<noteq> HTTP_OK \<and> code \<noteq> HTTP_FORBIDDEN"
  by (auto simp: isRedirection_def HTTP_OK_def HTTP_FORBIDDEN_def HTTP_FOUND_def
        HTTP_MOVED_PERMANENTLY_def HTTP_TEMPORARY_REDIRECT_def HTTP_PERMANENT_REDIRECT_def)

lemma OK_not_isRedirection: "\<not> isRedirection 200"
  by (simp add: isRedirection_def HTTP_FOUND_def
        HTTP_MOVED_PERMANENTLY_def HTTP_TEMPORARY_REDIRECT_def HTTP_PERMANENT_REDIRECT_def)

lemma withRootFilePath_paths [simp]:
  "rootFilePath env (withRootFilePath env st) = rootFilePath env st"
  "localFilePath env (withRootFilePath env st) = localFilePath env st"
  "localRootPath env (withRootFilePath env st) = localRootPath env st"
  by (simp_all add: withRootFilePath_def rootFilePath_def localFilePath_def localRootPath_def)

lemma downloadDocument_OK:
  assumes "downloadExchange env (rootFilePath env st) u = Inr r" and "statusCode r = 200"
    and "checkDiskSpace env (rootFilePath env st)"
    and "createDirectories env (localRootPath env st) = Inr ()"
  shows "fst (downloadDocument env st u anon limit) = Inr (localFilePath env st)"
  using assms
  apply (subst downloadDocument.simps)
  apply (auto simp: downloadExchange_def rootFilePath_def localFilePath_def getLocalRootPath_def
                    Let_def HTTP_OK_def
               split: sum.splits)
  done

lemma downloadDocument_redirect:
  assumes "downloadExchange env (rootFilePath env st) u = Inr r" and "isRedirection (statusCode r)"
    and "checkDiskSpace env (rootFilePath env st)"
    and "createDirectories env (localRootPath env st) = Inr ()" and "limit \<noteq> 0"
    and "parseURI env (getHeader ''Location'' [] (responseHeaders r)) = Inr u'"
  shows "fst (downloadDocument env st u anon limit)
           = fst (downloadDocument env (withRootFilePath env st) u' anon (limit - 1))"
  using assms isRedirection_not_OK [of "statusCode r"]
  apply (subst downloadDocument.simps)
  apply (auto simp: downloadExchange_def rootFilePath_def withRootFilePath_def
                    getLocalRootPath_def Let_def
               split: sum.splits prod.splits)
  done

lemma downloadDocument_exhausted:
  assumes "downloadExchange env (rootFilePath env st) u = Inr r" and "isRedirection (statusCode r)"
    and "checkDiskSpace env (rootFilePath env st)"
    and "createDirectories env (localRootPath env st) = Inr ()"
  shows "fst (downloadDocument env st u anon 0)
           = Inl (StorageConnectionException
                    (''WOPI::GetFile ['' @ anon @ ''] failed: redirected too many times''))"
  using assms isRedirection_not_OK [of "statusCode r"]
  apply (subst downloadDocument.simps)
  apply (auto simp: downloadExchange_def rootFilePath_def getLocalRootPath_def Let_def
               split: sum.splits)
  done

lemma downloadDocument_follows:
  assumes "n \<le> limit"
    and "followRedirects (downloadExchange env (rootFilePath env st)) (parseURI env) n u = Some v"
    and "checkDiskSpace env (rootFilePath env st)"
    and "createDirectories env (localRootPath env st) = Inr ()"
  shows "fst (downloadDocument env st u anon limit)
           = fst (downloadDocument env (if n = 0 then st else withRootFilePath env st) v anon (limit - n))"
  using assms
proof (induction n arbitrary: st u limit)
  case 0
  then show ?case by simp
next
  case (Suc n)
  let ?P = "rootFilePath env st"
  from Suc.prems(2) obtain r u' where
    r: "downloadExchange env ?P u = Inr r" "isRedirection (statusCode r)"
       "parseURI env (getHeader ''Location'' [] (responseHeaders r)) = Inr u'"
       "followRedirects (downloadExchange env ?P) (parseURI env) n u' = Some v"
    by (auto split: sum.splits if_splits)
  from Suc.prems(1) have l: "limit \<noteq> 0" "n \<le> limit - 1" by simp_all
  have "fst (downloadDocument env st u anon limit)
          = fst (downloadDocument env (withRootFilePath env st) u' anon (limit - 1))"
    using r(1,2) Suc.prems(3,4) l(1) r(3) by (rule downloadDocument_redirect)
  also have "\<dots> = fst (downloadDocument env
                          (if n = 0 then withRootFilePath env st
                           else withRootFilePath env (withRootFilePath env st))
                          v anon (limit - 1 - n))"
    using Suc.IH [of "limit - 1" "withRootFilePath env st" u'] l(2) r(4) Suc.prems(3,4)
    by simp
  also have "withRootFilePath env (withRootFilePath env st) = withRootFilePath env st"
    by (simp add: withRootFilePath_def rootFilePath_def localRootPath_def)
  finally show ?case by simp
qed

lemma downloadDocument_requests:
  "length (snd (snd (downloadDocument env st u anon limit))) \<le> limit + 1"
proof (induction limit arbitrary: st u)
  case 0
  show ?case
    apply (subst downloadDocument.simps)
    apply (simp add: Let_def split: sum.splits)
    done
next
  case (Suc limit)
  have ih: "length sent \<le> Suc limit"
    if "downloadDocument env st' u' anon limit = (r, st3, sent)" for st' u' r st3 sent
    using Suc.IH [of st' u'] that by simp
  show ?case
    apply (subst downloadDocument.simps)
    apply (auto simp: Let_def split: sum.splits prod.splits dest: ih)
    done
qed

lemma fetchExchange_cases:
  assumes "fetchExchange env u = Inr r"
  obtains sent where "checkFileInfoExchange env (authorizeURI env u) = (Inr r, sent)"
  using assms by (cases "checkFileInfoExchange env (authorizeURI env u)") (auto simp: fetchExchange_def)

lemma getWOPIFileInfoForUri_OK:
  assumes "fetchExchange env u = Inr r" and "statusCode r = 200"
    and "parseJSON env (body r) = Inr (Some object)"
  shows "fst (getWOPIFileInfoForUri env st lockCtx u limit) = Inr (WOPIFileInfo env object)"
proof -
  from assms(1) obtain sent where
    x: "checkFileInfoExchange env (authorizeURI env u) = (Inr r, sent)"
    by (rule fetchExchange_cases)
  show ?thesis
    apply (subst getWOPIFileInfoForUri.simps)
    apply (simp add: x assms OK_not_isRedirection HTTP_OK_def parseCheckFileInfo_def Let_def)
    done
qed

lemma getWOPIFileInfoForUri_redirect:
  assumes "fetchExchange env u = Inr r" and "isRedirection (statusCode r)" and "limit \<noteq> 0"
    and "parseURI env (getHeader ''Location'' [] (responseHeaders r)) = Inr u'"
    and "fst (getWOPIFileInfoForUri env (setUri st u') lockCtx u' (limit - 1)) = res"
    and "res \<noteq> Inl BadRequestException"
  shows "fst (getWOPIFileInfoForUri env st lockCtx u limit) = res"
proof -
  from assms(1) obtain sent where
    x: "checkFileInfoExchange env (authorizeURI env u) = (Inr r, sent)"
    by (rule fetchExchange_cases)
  obtain res' st' lockCtx' sent' where
    rec: "getWOPIFileInfoForUri env (setUri st u') lockCtx u' (limit - 1) = (res', st', lockCtx', sent')"
    by (rule prod_cases4)
  with assms(5) have res: "res' = res" by simp
  show ?thesis
  proof (cases res)
    case (Inr info)
    show ?thesis
      apply (subst getWOPIFileInfoForUri.simps)
      apply (simp add: x assms(2-4) rec [unfolded One_nat_def] res Inr Let_def)
      done
  next
    case (Inl e)
    with assms(6) have "e \<noteq> BadRequestException" by simp
    then show ?thesis
      apply (subst getWOPIFileInfoForUri.simps)
      apply (simp add: x assms(2-4) rec [unfolded One_nat_def] res Inl checkFileInfoCatch_def Let_def)
      done
  qed
qed

lemma getWOPIFileInfoForUri_exhausted:
  assumes "fetchExchange env u = Inr r" and "isRedirection (statusCode r)"
  shows "fst (getWOPIFileInfoForUri env st lockCtx u 0)
           = Inl (StorageConnectionException (''WOPI::CheckFileInfo failed: '' @ body r))"
proof -
  from assms(1) obtain sent where
    x: "checkFileInfoExchange env (authorizeURI env u) = (Inr r, sent)"
    by (rule fetchExchange_cases)
  show ?thesis
    using isRedirection_not_OK [OF assms(2)]
    apply (subst getWOPIFileInfoForUri.simps)
    apply (simp add: x assms(2) checkFileInfoCatch_def Let_def)
    done
qed

lemma getWOPIFileInfoForUri_follows:
  assumes "n \<le> limit"
    and "followRedirects (fetchExchange env) (parseURI env) n u = Some v"
    and "\<And>st'. fst (getWOPIFileInfoForUri env st' lockCtx v (limit - n)) = res"
    and "res \<noteq> Inl BadRequestException"
  shows "fst (getWOPIFileInfoForUri env st lockCtx u limit) = res"
  using assms
proof (induction n arbitrary: st u limit)
  case 0
  then show ?case by simp
next
  case (Suc n)
  from Suc.prems(2) obtain r u' where
    r: "fetchExchange env u = Inr r" "isRedirection (statusCode r)"
       "parseURI env (getHeader ''Location'' [] (responseHeaders r)) = Inr u'"
       "followRedirects (fetchExchange env) (parseURI env) n u' = Some v"
    by (auto split: sum.splits if_splits)
  from Suc.prems(1) have l: "limit \<noteq> 0" "n \<le> limit - 1" by simp_all
  have "fst (getWOPIFileInfoForUri env (setUri st u') lockCtx u' (limit - 1)) = res"
  proof (rule Suc.IH [OF l(2) r(4) _ Suc.prems(4)])
    fix st'
    from Suc.prems(3) [of st'] show "fst (getWOPIFileInfoForUri env st' lockCtx v (limit - 1 - n)) = res"
      by simp
  qed
  with r(1,2) l(1) r(3) show ?case
    using Suc.prems(4) by (rule getWOPIFileInfoForUri_redirect)
qed

lemma parseCheckFileInfo_requests:
  "snd (snd (snd (parseCheckFileInfo env st lockCtx anon wopiResponse sent))) = sent"
  by (simp add: parseCheckFileInfo_def Let_def split: sum.splits option.splits)

lemma checkFileInfoCatch_requests:
  "snd (snd (snd (checkFileInfoCatch env st lockCtx anon wopiResponse e sent))) = sent"
  by (simp add: checkFileInfoCatch_def parseCheckFileInfo_requests)

lemma checkFileInfoExchange_requests:
  "length (snd (checkFileInfoExchange env u)) \<le> 1"
  by (simp add: checkFileInfoExchange_def Let_def split: sum.splits)

lemma getWOPIFileInfoForUri_requests:
  "length (snd (snd (snd (getWOPIFileInfoForUri env st lockCtx u limit)))) \<le> limit + 1"
proof (induction limit arbitrary: st lockCtx u)
  case 0
  obtain x sent where x: "checkFileInfoExchange env (authorizeURI env u) = (x, sent)"
    by (rule prod.exhaust)
  with checkFileInfoExchange_requests [of env "authorizeURI env u"] have "length sent \<le> 1" by simp
  then show ?case
    apply (subst getWOPIFileInfoForUri.simps)
    apply (simp add: x Let_def checkFileInfoCatch_requests parseCheckFileInfo_requests
                split: sum.splits)
    done
next
  case (Suc limit)
  obtain x sent where x: "checkFileInfoExchange env (authorizeURI env u) = (x, sent)"
    by (rule prod.exhaust)
  with checkFileInfoExchange_requests [of env "authorizeURI env u"] have s: "length sent \<le> 1" by simp
  have ih: "length sent' \<le> Suc limit"
    if "getWOPIFileInfoForUri env st' lockCtx' u' limit = (res, st3, lockCtx3, sent')"
    for st' lockCtx' u' res st3 lockCtx3 sent'
    using Suc.IH [of st' lockCtx' u'] that by simp
  show ?case
    apply (subst getWOPIFileInfoForUri.simps)
    using s
    apply (auto simp: x Let_def checkFileInfoCatch_requests parseCheckFileInfo_requests
                split: sum.splits prod.splits dest!: ih)
    done
qed

lemma getWOPIFileInfoForUri_not_object:
  assumes "fetchExchange env u = Inr r" and "statusCode r = 200"
    and "parseJSON env (body r) = Inr None"
  shows "fst (getWOPIFileInfoForUri env st lockCtx u limit)
           = Inl (UnauthorizedRequestException
                    (''Access denied. WOPI::CheckFileInfo failed on: ''
                     @ anonymizeUrl env (toString env (authorizeURI env u))))"
proof -
  from assms(1) obtain sent where
    x: "checkFileInfoExchange env (authorizeURI env u) = (Inr r, sent)"
    by (rule fetchExchange_cases)
  show ?thesis
    apply (subst getWOPIFileInfoForUri.simps)
    apply (simp add: x assms OK_not_isRedirection HTTP_OK_def parseCheckFileInfo_def Let_def)
    done
qed

lemma getWOPIFileInfoForUri_parse_throws:
  assumes "fetchExchange env u = Inr r" and "statusCode r = 200"
    and "parseJSON env (body r) = Inl e"
  shows "fst (getWOPIFileInfoForUri env st lockCtx u limit) = Inl e"
proof -
  from assms(1) obtain sent where
    x: "checkFileInfoExchange env (authorizeURI env u) = (Inr r, sent)"
    by (rule fetchExchange_cases)
  show ?thesis
    apply (subst getWOPIFileInfoForUri.simps)
    apply (simp add: x assms OK_not_isRedirection HTTP_OK_def parseCheckFileInfo_def Let_def)
    done
qed

lemma downloadDocument_no_directory:
  assumes "getHttpSession env u = Inr session" and "initHttpRequest env u = Inr hs"
    and "createDirectories env (localRootPath env st) = Inl e"
  shows "downloadDocument env st u anon limit = (Inl e, st, [])"
  using assms
  apply (subst downloadDocument.simps)
  apply (simp add: getLocalRootPath_def)
  done

lemma isRedirection_codes:
  "isRedirection code = (code = 301 \<or> code = 302 \<or> code = 307 \<or> code = 308)"
  by (auto simp: isRedirection_def HTTP_FOUND_def HTTP_MOVED_PERMANENTLY_def
        HTTP_TEMPORARY_REDIRECT_def HTTP_PERMANENT_REDIRECT_def)

text \<open>
  C2, amended. Both redirect-following functions are started with a hop budget of 21, and a
  redirection is a response with status 301, 302, 307 or 308. A download whose redirect
  chain has at most 21 redirections and ends in a 200 response succeeds, provided the
  destination directory can be created and the disk-space check on the destination passes;
  when the directory cannot be created, what creating it throws leaves the download before
  any request is made. A metadata fetch whose chain has at most 21 redirections and ends in
  a 200 response succeeds, provided the body of that response parses as a JSON object; when
  the body parses, but not as a JSON object, the fetch fails as unauthorized; when the
  parser throws on it, what it throws leaves the fetch (stated for every exception but
  \<^verbatim>\<open>BadRequestException\<close>, which the handler of a redirected caller swallows). When the
  first 22 responses are all
  redirections, both stop at the 22nd with a storage-connection exception (the download
  under the same two provisos). Whatever the host answers, a call with budget \<open>limit\<close> hands
  at most \<open>limit + 1\<close> requests to the transport: the functions are total, by recursion on a
  budget that each hop decreases by one.
\<close>

theorem redirects_bounded:
  "(n \<le> RedirectionLimit
      \<and> followRedirects (downloadExchange env (rootFilePath env st)) (parseURI env) n u = Some v
      \<and> downloadExchange env (rootFilePath env st) v = Inr r \<and> statusCode r = 200
      \<and> createDirectories env (localRootPath env st) = Inr ()
      \<and> checkDiskSpace env (rootFilePath env st) \<longrightarrow>
    fst (downloadDocument env st u anon RedirectionLimit) = Inr (localFilePath env st))
   \<and> (followRedirects (downloadExchange env (rootFilePath env st)) (parseURI env)
         RedirectionLimit u = Some v
      \<and> downloadExchange env (rootFilePath env st) v = Inr r \<and> isRedirection (statusCode r)
      \<and> createDirectories env (localRootPath env st) = Inr ()
      \<and> checkDiskSpace env (rootFilePath env st) \<longrightarrow>
    fst (downloadDocument env st u anon RedirectionLimit)
      = Inl (StorageConnectionException
               (''WOPI::GetFile ['' @ anon @ ''] failed: redirected too many times'')))
   \<and> length (snd (snd (downloadDocument env st u anon limit))) \<le> limit + 1
   \<and> (n \<le> RedirectionLimit
      \<and> followRedirects (fetchExchange env) (parseURI env) n u = Some v
      \<and> fetchExchange env v = Inr r \<and> statusCode r = 200
      \<and> parseJSON env (body r) = Inr (Some object) \<longrightarrow>
    fst (getWOPIFileInfoForUri env st lockCtx u RedirectionLimit) = Inr (WOPIFileInfo env object))
   \<and> (followRedirects (fetchExchange env) (parseURI env) RedirectionLimit u = Some v
      \<and> fetchExchange env v = Inr r \<and> isRedirection (statusCode r) \<longrightarrow>
    fst (getWOPIFileInfoForUri env st lockCtx u RedirectionLimit)
      = Inl (StorageConnectionException (''WOPI::CheckFileInfo failed: '' @ body r)))
   \<and> length (snd (snd (snd (getWOPIFileInfoForUri env st lockCtx u limit)))) \<le> limit + 1
   \<and> getWOPIFileInfo env st lockCtx
       = getWOPIFileInfoForUri env st lockCtx (getUri st) RedirectionLimit
   \<and> (n \<le> RedirectionLimit
      \<and> followRedirects (fetchExchange env) (parseURI env) n u = Some v
      \<and> fetchExchange env v = Inr r \<and> statusCode r = 200
      \<and> parseJSON env (body r) = Inr None \<longrightarrow>
    fst (getWOPIFileInfoForUri env st lockCtx u RedirectionLimit)
      = Inl (UnauthorizedRequestException
               (''Access denied. WOPI::CheckFileInfo failed on: ''
                @ anonymizeUrl env (toString env (authorizeURI env v)))))
   \<and> (n \<le> RedirectionLimit
      \<and> followRedirects (fetchExchange env) (parseURI env) n u = Some v
      \<and> fetchExchange env v = Inr r \<and> statusCode r = 200
      \<and> parseJSON env (body r) = Inl e \<and> e \<noteq> BadRequestException \<longrightarrow>
    fst (getWOPIFileInfoForUri env st lockCtx u RedirectionLimit) = Inl e)
   \<and> (getHttpSession env u = Inr session \<and> initHttpRequest env u = Inr hs
      \<and> createDirectories env (localRootPath env st) = Inl e \<longrightarrow>
    downloadDocument env st u anon limit = (Inl e, st, []))
   \<and> (parseURI env url = Inr u \<longrightarrow>
    downloadFrom env st url = downloadDocument env st u (anonymizeUrl env url) RedirectionLimit)
   \<and> downloadDefault env st
       = downloadDocument env st (contentsUri env st)
           (toString env ((getUri st)\<lparr>path := anonymizeUrl env (path (getUri st)) @ ''/contents''\<rparr>))
           RedirectionLimit
   \<and> isRedirection code = (code = 301 \<or> code = 302 \<or> code = 307 \<or> code = 308)
   \<and> RedirectionLimit = 21"
proof (intro conjI impI)
  let ?P = "rootFilePath env st"
  {
    assume "n \<le> RedirectionLimit
      \<and> followRedirects (downloadExchange env ?P) (parseURI env) n u = Some v
      \<and> downloadExchange env ?P v = Inr r \<and> statusCode r = 200
      \<and> createDirectories env (localRootPath env st) = Inr () \<and> checkDiskSpace env ?P"
    then have a: "n \<le> RedirectionLimit"
        "followRedirects (downloadExchange env ?P) (parseURI env) n u = Some v"
        "downloadExchange env ?P v = Inr r" "statusCode r = 200" "checkDiskSpace env ?P"
        "createDirectories env (localRootPath env st) = Inr ()"
      by simp_all
    let ?st = "if n = 0 then st else withRootFilePath env st"
    have p: "rootFilePath env ?st = ?P" "localFilePath env ?st = localFilePath env st"
        "localRootPath env ?st = localRootPath env st"
      by simp_all
    have "fst (downloadDocument env st u anon RedirectionLimit)
            = fst (downloadDocument env ?st v anon (RedirectionLimit - n))"
      by (rule downloadDocument_follows [OF a(1,2,5,6)])
    also have "\<dots> = Inr (localFilePath env ?st)"
      using a(3-6) by (intro downloadDocument_OK [where r = r]) (simp_all only: p)
    finally show "fst (downloadDocument env st u anon RedirectionLimit) = Inr (localFilePath env st)"
      by (simp only: p)
  }
  {
    assume "followRedirects (downloadExchange env ?P) (parseURI env) RedirectionLimit u = Some v
      \<and> downloadExchange env ?P v = Inr r \<and> isRedirection (statusCode r)
      \<and> createDirectories env (localRootPath env st) = Inr () \<and> checkDiskSpace env ?P"
    then have a: "followRedirects (downloadExchange env ?P) (parseURI env) RedirectionLimit u = Some v"
        "downloadExchange env ?P v = Inr r" "isRedirection (statusCode r)" "checkDiskSpace env ?P"
        "createDirectories env (localRootPath env st) = Inr ()"
      by simp_all
    have "fst (downloadDocument env st u anon RedirectionLimit)
            = fst (downloadDocument env (withRootFilePath env st) v anon
                     (RedirectionLimit - RedirectionLimit))"
      using downloadDocument_follows [OF order_refl a(1,4,5), of anon]
      by (simp add: RedirectionLimit_def)
    also have "\<dots> = Inl (StorageConnectionException
               (''WOPI::GetFile ['' @ anon @ ''] failed: redirected too many times''))"
      using a(2-5) downloadDocument_exhausted [of env "withRootFilePath env st" v r anon] by simp
    finally show "fst (downloadDocument env st u anon RedirectionLimit)
      = Inl (StorageConnectionException
               (''WOPI::GetFile ['' @ anon @ ''] failed: redirected too many times''))" .
  }
  show "length (snd (snd (downloadDocument env st u anon limit))) \<le> limit + 1"
    by (rule downloadDocument_requests)
  {
    assume "n \<le> RedirectionLimit
      \<and> followRedirects (fetchExchange env) (parseURI env) n u = Some v
      \<and> fetchExchange env v = Inr r \<and> statusCode r = 200
      \<and> parseJSON env (body r) = Inr (Some object)"
    then have a: "n \<le> RedirectionLimit"
        "followRedirects (fetchExchange env) (parseURI env) n u = Some v"
        "fetchExchange env v = Inr r" "statusCode r = 200"
        "parseJSON env (body r) = Inr (Some object)"
      by simp_all
    have "\<And>st'. fst (getWOPIFileInfoForUri env st' lockCtx v (RedirectionLimit - n))
                  = Inr (WOPIFileInfo env object)"
      by (rule getWOPIFileInfoForUri_OK [OF a(3-5)])
    then show "fst (getWOPIFileInfoForUri env st lockCtx u RedirectionLimit)
                 = Inr (WOPIFileInfo env object)"
      by (rule getWOPIFileInfoForUri_follows [OF a(1,2)]) simp
  }
  {
    assume "followRedirects (fetchExchange env) (parseURI env) RedirectionLimit u = Some v
      \<and> fetchExchange env v = Inr r \<and> isRedirection (statusCode r)"
    then have a: "followRedirects (fetchExchange env) (parseURI env) RedirectionLimit u = Some v"
        "fetchExchange env v = Inr r" "isRedirection (statusCode r)"
      by simp_all
    have "\<And>st'. fst (getWOPIFileInfoForUri env st' lockCtx v (RedirectionLimit - RedirectionLimit))
                 = Inl (StorageConnectionException (''WOPI::CheckFileInfo failed: '' @ body r))"
      using getWOPIFileInfoForUri_exhausted [OF a(2,3), of _ lockCtx] by simp
    then show "fst (getWOPIFileInfoForUri env st lockCtx u RedirectionLimit)
      = Inl (StorageConnectionException (''WOPI::CheckFileInfo failed: '' @ body r))"
      by (rule getWOPIFileInfoForUri_follows [OF order_refl a(1)]) simp
  }
  show "length (snd (snd (snd (getWOPIFileInfoForUri env st lockCtx u limit)))) \<le> limit + 1"
    by (rule getWOPIFileInfoForUri_requests)
  show "getWOPIFileInfo env st lockCtx
          = getWOPIFileInfoForUri env st lockCtx (getUri st) RedirectionLimit"
    by (simp add: getWOPIFileInfo_def)
  {
    assume "n \<le> RedirectionLimit
      \<and> followRedirects (fetchExchange env) (parseURI env) n u = Some v
      \<and> fetchExchange env v = Inr r \<and> statusCode r = 200
      \<and> parseJSON env (body r) = Inr None"
    then have a: "n \<le> RedirectionLimit"
        "followRedirects (fetchExchange env) (parseURI env) n u = Some v"
        "fetchExchange env v = Inr r" "statusCode r = 200"
        "parseJSON env (body r) = Inr None"
      by simp_all
    have "\<And>st'. fst (getWOPIFileInfoForUri env st' lockCtx v (RedirectionLimit - n))
                  = Inl (UnauthorizedRequestException
                           (''Access denied. WOPI::CheckFileInfo failed on: ''
                            @ anonymizeUrl env (toString env (authorizeURI env v))))"
      by (rule getWOPIFileInfoForUri_not_object [OF a(3-5)])
    then show "fst (getWOPIFileInfoForUri env st lockCtx u RedirectionLimit)
                 = Inl (UnauthorizedRequestException
                          (''Access denied. WOPI::CheckFileInfo failed on: ''
                           @ anonymizeUrl env (toString env (authorizeURI env v))))"
      by (rule getWOPIFileInfoForUri_follows [OF a(1,2)]) simp
  }
  {
    assume "n \<le> RedirectionLimit
      \<and> followRedirects (fetchExchange env) (parseURI env) n u = Some v
      \<and> fetchExchange env v = Inr r \<and> statusCode r = 200
      \<and> parseJSON env (body r) = Inl e \<and> e \<noteq> BadRequestException"
    then have a: "n \<le> RedirectionLimit"
        "followRedirects (fetchExchange env) (parseURI env) n u = Some v"
        "fetchExchange env v = Inr r" "statusCode r = 200"
        "parseJSON env (body r) = Inl e" "e \<noteq> BadRequestException"
      by simp_all
    have "\<And>st'. fst (getWOPIFileInfoForUri env st' lockCtx v (RedirectionLimit - n)) = Inl e"
      by (rule getWOPIFileInfoForUri_parse_throws [OF a(3-5)])
    then show "fst (getWOPIFileInfoForUri env st lockCtx u RedirectionLimit) = Inl e"
      using a(6) by (intro getWOPIFileInfoForUri_follows [OF a(1,2)]) simp_all
  }
  {
    assume "getHttpSession env u = Inr session \<and> initHttpRequest env u = Inr hs
      \<and> createDirectories env (localRootPath env st) = Inl e"
    then show "downloadDocument env st u anon limit = (Inl e, st, [])"
      by (intro downloadDocument_no_directory [where session = session and hs = hs]) simp_all
  }
  {
    assume "parseURI env url = Inr u"
    then show "downloadFrom env st url
                 = downloadDocument env st u (anonymizeUrl env url) RedirectionLimit"
      by (simp add: downloadFrom_def)
  }
  show "downloadDefault env st
       = downloadDocument env st (contentsUri env st)
           (toString env ((getUri st)\<lparr>path := anonymizeUrl env (path (getUri st)) @ ''/contents''\<rparr>))
           RedirectionLimit"
    by (simp add: downloadDefault_def Let_def)
  show "isRedirection code = (code = 301 \<or> code = 302 \<or> code = 307 \<or> code = 308)"
    by (rule isRedirection_codes)
  show "RedirectionLimit = 21" by (simp add: RedirectionLimit_def)
qed

lemmas example_exchange_defs =
  getHeader_def downloadExchange_def fetchExchange_def checkFileInfoExchange_def exampleEnv_def
  exampleHost_def examplePath_def response_def isRedirection_def HTTP_FOUND_def
  HTTP_MOVED_PERMANENTLY_def HTTP_TEMPORARY_REDIRECT_def HTTP_PERMANENT_REDIRECT_def Let_def

lemma example_chain_download:
  "followRedirects (downloadExchange exampleEnv dest) (parseURI exampleEnv) 2
     (examplePath ''/wopi/files/a'') = Some (examplePath ''/wopi/files/1'')
   \<and> downloadExchange exampleEnv dest (examplePath ''/wopi/files/1'') = Inr (response 200 [] scenarioA)"
  by (simp add: numeral_2_eq_2 example_exchange_defs)

lemma example_chain_fetch:
  "followRedirects (fetchExchange exampleEnv) (parseURI exampleEnv) 2
     (examplePath ''/wopi/files/a'') = Some (examplePath ''/wopi/files/1'')
   \<and> fetchExchange exampleEnv (examplePath ''/wopi/files/1'') = Inr (response 200 [] scenarioA)"
  by (simp add: numeral_2_eq_2 example_exchange_defs)

lemma example_loop_download:
  "followRedirects (downloadExchange exampleEnv dest) (parseURI exampleEnv) n (examplePath ''/loop'')
     = Some (examplePath ''/loop'')"
  by (induction n) (simp_all add: example_exchange_defs)

lemma example_loop_fetch:
  "followRedirects (fetchExchange exampleEnv) (parseURI exampleEnv) n (examplePath ''/loop'')
     = Some (examplePath ''/loop'')"
  by (induction n) (simp_all add: example_exchange_defs)

lemma example_loop_response:
  "downloadExchange exampleEnv dest (examplePath ''/loop'')
     = Inr (response 302 [(''Location'', ''/loop'')] [])"
  "fetchExchange exampleEnv (examplePath ''/loop'')
     = Inr (response 302 [(''Location'', ''/loop'')] [])"
  by (simp_all add: example_exchange_defs)

lemma example_paths:
  "checkDiskSpace exampleEnv p"
  "localFilePath exampleEnv exampleStorage = ''/user/docs/1/doc.odt''"
  "createDirectories exampleEnv p = Inr ()"
  by (simp_all add: exampleEnv_def localFilePath_def exampleStorage_def WopiStorage_def setUri_def)

lemma example_text_fetch:
  "fetchExchange exampleEnv (examplePath ''/text'') = Inr (response 200 [] ''not json'')"
  "parseJSON exampleEnv ''not json'' = Inr None"
  by (simp_all add: example_exchange_defs exampleParseJSON_def scenarioA_def scenarioB_def)

lemma example_chain_fetch_throwing:
  "followRedirects (fetchExchange (exampleEnv\<lparr>parseJSON := (\<lambda>s. Inl PocoException)\<rparr>))
     (parseURI (exampleEnv\<lparr>parseJSON := (\<lambda>s. Inl PocoException)\<rparr>)) 2
     (examplePath ''/wopi/files/a'') = Some (examplePath ''/wopi/files/1'')
   \<and> fetchExchange (exampleEnv\<lparr>parseJSON := (\<lambda>s. Inl PocoException)\<rparr>)
       (examplePath ''/wopi/files/1'') = Inr (response 200 [] scenarioA)"
  by (simp add: numeral_2_eq_2 example_exchange_defs)


lemma example_scenarioA:
  "parseJSON exampleEnv scenarioA =
     Inr (Some [(''BaseFileName'', JString ''doc.odt''), (''OwnerId'', JString ''u1''),
                (''LastModifiedTime'', JString ''2024-01-01T00:00:00Z''),
                (''UserCanWrite'', JBool True), (''SupportsLocks'', JBool True)])"
  by (simp add: exampleEnv_def exampleParseJSON_def scenarioA_not_scenarioB)

theorem redirects_bounded_witness:
  "fst (downloadDocument exampleEnv exampleStorage (examplePath ''/wopi/files/a'') ''a''
          RedirectionLimit) = Inr ''/user/docs/1/doc.odt''
   \<and> fst (downloadDocument exampleEnv exampleStorage (examplePath ''/loop'') ''loop'' RedirectionLimit)
       = Inl (StorageConnectionException ''WOPI::GetFile [loop] failed: redirected too many times'')
   \<and> length (snd (snd (downloadDocument exampleEnv exampleStorage (examplePath ''/loop'') ''loop''
                         RedirectionLimit))) \<le> 22
   \<and> fst (getWOPIFileInfoForUri exampleEnv exampleStorage exampleLockContext
            (examplePath ''/wopi/files/a'') RedirectionLimit)
       = Inr \<lparr>getUserId = [], getUsername = ''UnknownUser'', getTemplateSource = [],
              getFileUrl = [], getUserCanWrite = True, getSupportsLocks = True,
              getSupportsRename = False\<rparr>
   \<and> fst (getWOPIFileInfoForUri exampleEnv exampleStorage exampleLockContext
            (examplePath ''/loop'') RedirectionLimit)
       = Inl (StorageConnectionException ''WOPI::CheckFileInfo failed: '')
   \<and> length (snd (snd (snd (getWOPIFileInfoForUri exampleEnv exampleStorage exampleLockContext
                              (examplePath ''/loop'') RedirectionLimit)))) \<le> 22
   \<and> fst (getWOPIFileInfoForUri exampleEnv exampleStorage exampleLockContext
            (examplePath ''/text'') RedirectionLimit)
       = Inl (UnauthorizedRequestException
                ''Access denied. WOPI::CheckFileInfo failed on: https://wopi.example/text'')
   \<and> fst (getWOPIFileInfoForUri (exampleEnv\<lparr>parseJSON := (\<lambda>s. Inl PocoException)\<rparr>)
            exampleStorage exampleLockContext (examplePath ''/wopi/files/a'') RedirectionLimit)
       = Inl PocoException
   \<and> downloadDocument (exampleEnv\<lparr>createDirectories := (\<lambda>p. Inl PocoException)\<rparr>) exampleStorage
        (examplePath ''/wopi/files/1'') ''file'' RedirectionLimit
       = (Inl PocoException, exampleStorage, [])
   \<and> downloadFrom exampleEnv exampleStorage ''/wopi/files/a''
       = downloadDocument exampleEnv exampleStorage (examplePath ''/wopi/files/a'')
           ''/wopi/files/a'' RedirectionLimit"
proof -
  let ?P = "rootFilePath exampleEnv exampleStorage"
  note t = redirects_bounded [where env = exampleEnv and st = exampleStorage
             and lockCtx = exampleLockContext]
  have 1: "fst (downloadDocument exampleEnv exampleStorage (examplePath ''/wopi/files/a'') ''a''
          RedirectionLimit) = Inr ''/user/docs/1/doc.odt''"
    using t [where n = 2 and u = "examplePath ''/wopi/files/a''" and v = "examplePath ''/wopi/files/1''"
            and r = "response 200 [] scenarioA" and anon = "''a''", THEN conjunct1]
          example_chain_download [of ?P] example_paths
    by (simp add: RedirectionLimit_def response_def)
  have 2: "fst (downloadDocument exampleEnv exampleStorage (examplePath ''/loop'') ''loop'' RedirectionLimit)
       = Inl (StorageConnectionException ''WOPI::GetFile [loop] failed: redirected too many times'')"
    using t [where u = "examplePath ''/loop''" and v = "examplePath ''/loop''"
            and r = "response 302 [(''Location'', ''/loop'')] []" and anon = "''loop''",
            THEN conjunct2, THEN conjunct1]
          example_loop_download [of ?P RedirectionLimit] example_loop_response(1) [of ?P]
          example_paths(1) [of ?P] example_paths(3)
    by (simp add: response_def isRedirection_def HTTP_FOUND_def)
  have 3: "length (snd (snd (downloadDocument exampleEnv exampleStorage (examplePath ''/loop'') ''loop''
                         RedirectionLimit))) \<le> 22"
    using t [where u = "examplePath ''/loop''" and anon = "''loop''" and limit = RedirectionLimit,
            THEN conjunct2, THEN conjunct2, THEN conjunct1]
    by (simp add: RedirectionLimit_def)
  have 4: "fst (getWOPIFileInfoForUri exampleEnv exampleStorage exampleLockContext
            (examplePath ''/wopi/files/a'') RedirectionLimit)
       = Inr (WOPIFileInfo exampleEnv
               [(''BaseFileName'', JString ''doc.odt''), (''OwnerId'', JString ''u1''),
                (''LastModifiedTime'', JString ''2024-01-01T00:00:00Z''),
                (''UserCanWrite'', JBool True), (''SupportsLocks'', JBool True)])"
    using t [where n = 2 and u = "examplePath ''/wopi/files/a''" and v = "examplePath ''/wopi/files/1''"
            and r = "response 200 [] scenarioA"
            and object = "[(''BaseFileName'', JString ''doc.odt''), (''OwnerId'', JString ''u1''),
                (''LastModifiedTime'', JString ''2024-01-01T00:00:00Z''),
                (''UserCanWrite'', JBool True), (''SupportsLocks'', JBool True)]",
            THEN conjunct2, THEN conjunct2, THEN conjunct2, THEN conjunct1]
          example_chain_fetch example_scenarioA
    by (simp add: RedirectionLimit_def response_def)
  have 5: "fst (getWOPIFileInfoForUri exampleEnv exampleStorage exampleLockContext
            (examplePath ''/loop'') RedirectionLimit)
       = Inl (StorageConnectionException ''WOPI::CheckFileInfo failed: '')"
    using t [where u = "examplePath ''/loop''" and v = "examplePath ''/loop''"
            and r = "response 302 [(''Location'', ''/loop'')] []",
            THEN conjunct2, THEN conjunct2, THEN conjunct2, THEN conjunct2, THEN conjunct1]
          example_loop_fetch [of RedirectionLimit] example_loop_response(2)
    by (simp add: response_def isRedirection_def HTTP_FOUND_def)
  have 6: "length (snd (snd (snd (getWOPIFileInfoForUri exampleEnv exampleStorage exampleLockContext
                              (examplePath ''/loop'') RedirectionLimit)))) \<le> 22"
    using t [where u = "examplePath ''/loop''" and limit = RedirectionLimit,
            THEN conjunct2, THEN conjunct2, THEN conjunct2, THEN conjunct2, THEN conjunct2,
            THEN conjunct1]
    by (simp add: RedirectionLimit_def)
  have w: "WOPIFileInfo exampleEnv
               [(''BaseFileName'', JString ''doc.odt''), (''OwnerId'', JString ''u1''),
                (''LastModifiedTime'', JString ''2024-01-01T00:00:00Z''),
                (''UserCanWrite'', JBool True), (''SupportsLocks'', JBool True)]
           = \<lparr>getUserId = [], getUsername = ''UnknownUser'', getTemplateSource = [],
              getFileUrl = [], getUserCanWrite = True, getSupportsLocks = True,
              getSupportsRename = False\<rparr>"
    by (simp add: WOPIFileInfo_def findString_def findBool_def exampleEnv_def)
  have 7: "fst (getWOPIFileInfoForUri exampleEnv exampleStorage exampleLockContext
            (examplePath ''/text'') RedirectionLimit)
       = Inl (UnauthorizedRequestException
                ''Access denied. WOPI::CheckFileInfo failed on: https://wopi.example/text'')"
    using t [where n = 0 and u = "examplePath ''/text''" and v = "examplePath ''/text''"
            and r = "response 200 [] ''not json''",
            THEN conjunct2, THEN conjunct2, THEN conjunct2, THEN conjunct2, THEN conjunct2,
            THEN conjunct2, THEN conjunct2, THEN conjunct1]
          example_text_fetch
    by (simp add: response_def exampleEnv_def examplePath_def)
  have 8: "fst (getWOPIFileInfoForUri (exampleEnv\<lparr>parseJSON := (\<lambda>s. Inl PocoException)\<rparr>)
            exampleStorage exampleLockContext (examplePath ''/wopi/files/a'') RedirectionLimit)
       = Inl PocoException"
    using redirects_bounded [where env = "exampleEnv\<lparr>parseJSON := (\<lambda>s. Inl PocoException)\<rparr>"
            and st = exampleStorage and lockCtx = exampleLockContext
            and n = 2 and u = "examplePath ''/wopi/files/a''" and v = "examplePath ''/wopi/files/1''"
            and r = "response 200 [] scenarioA" and e = PocoException,
            THEN conjunct2, THEN conjunct2, THEN conjunct2, THEN conjunct2, THEN conjunct2,
            THEN conjunct2, THEN conjunct2, THEN conjunct2, THEN conjunct1]
          example_chain_fetch_throwing
    by (simp add: RedirectionLimit_def response_def)
  have 9: "downloadDocument (exampleEnv\<lparr>createDirectories := (\<lambda>p. Inl PocoException)\<rparr>) exampleStorage
        (examplePath ''/wopi/files/1'') ''file'' RedirectionLimit
       = (Inl PocoException, exampleStorage, [])"
    using redirects_bounded [where env = "exampleEnv\<lparr>createDirectories := (\<lambda>p. Inl PocoException)\<rparr>"
            and st = exampleStorage and u = "examplePath ''/wopi/files/1''"
            and session = "()" and hs = "[(''User-Agent'', ''COOLWSD'')]" and e = PocoException
            and anon = "''file''" and limit = RedirectionLimit,
            THEN conjunct2, THEN conjunct2, THEN conjunct2, THEN conjunct2, THEN conjunct2,
            THEN conjunct2, THEN conjunct2, THEN conjunct2, THEN conjunct2, THEN conjunct1]
    by (simp add: exampleEnv_def)
  have 10: "downloadFrom exampleEnv exampleStorage ''/wopi/files/a''
       = downloadDocument exampleEnv exampleStorage (examplePath ''/wopi/files/a'')
           ''/wopi/files/a'' RedirectionLimit"
    using t [where url = "''/wopi/files/a''" and u = "examplePath ''/wopi/files/a''",
            THEN conjunct2, THEN conjunct2, THEN conjunct2, THEN conjunct2, THEN conjunct2,
            THEN conjunct2, THEN conjunct2, THEN conjunct2, THEN conjunct2, THEN conjunct2,
            THEN conjunct1]
    by (simp add: exampleEnv_def)
  from 1 2 3 4 5 6 7 8 9 10 show ?thesis by (simp add: w)
qed

text \<open>
  The claim as it stands fails on a chain that ends in a 200 response when that is not
  enough for the operation: the metadata fetch refuses a 200 whose body is not JSON, and the
  download does not start when the disk-space check fails or the destination directory
  cannot be created.
\<close>

theorem redirects_bounded_counterexample:
  "followRedirects (fetchExchange exampleEnv) (parseURI exampleEnv) 0 (examplePath ''/text'')
     = Some (examplePath ''/text'')
   \<and> fetchExchange exampleEnv (examplePath ''/text'')
       = Inr (response 200 [] ''not json'')
   \<and> fst (getWOPIFileInfoForUri exampleEnv exampleStorage exampleLockContext (examplePath ''/text'')
            RedirectionLimit)
       = Inl (UnauthorizedRequestException
                ''Access denied. WOPI::CheckFileInfo failed on: https://wopi.example/text'')
   \<and> followRedirects
        (downloadExchange (exampleEnv\<lparr>checkDiskSpace := (\<lambda>p. False)\<rparr>)
           (rootFilePath exampleEnv exampleStorage))
        (parseURI exampleEnv) 0 (examplePath ''/wopi/files/1'')
       = Some (examplePath ''/wopi/files/1'')
   \<and> downloadExchange (exampleEnv\<lparr>checkDiskSpace := (\<lambda>p. False)\<rparr>)
        (rootFilePath exampleEnv exampleStorage) (examplePath ''/wopi/files/1'')
       = Inr (response 200 [] scenarioA)
   \<and> fst (downloadDocument (exampleEnv\<lparr>checkDiskSpace := (\<lambda>p. False)\<rparr>) exampleStorage
            (examplePath ''/wopi/files/1'') ''file'' RedirectionLimit)
       = Inl (StorageSpaceLowException ''Low disk space for /jails/user/docs/1/doc.odt'')
   \<and> followRedirects
        (downloadExchange (exampleEnv\<lparr>createDirectories := (\<lambda>p. Inl PocoException)\<rparr>)
           (rootFilePath exampleEnv exampleStorage))
        (parseURI exampleEnv) 0 (examplePath ''/wopi/files/1'')
       = Some (examplePath ''/wopi/files/1'')
   \<and> downloadExchange (exampleEnv\<lparr>createDirectories := (\<lambda>p. Inl PocoException)\<rparr>)
        (rootFilePath exampleEnv exampleStorage) (examplePath ''/wopi/files/1'')
       = Inr (response 200 [] scenarioA)
   \<and> fst (downloadDocument (exampleEnv\<lparr>createDirectories := (\<lambda>p. Inl PocoException)\<rparr>)
            exampleStorage (examplePath ''/wopi/files/1'') ''file'' RedirectionLimit)
       = Inl PocoException"
  by (simp add: getWOPIFileInfoForUri.simps downloadDocument.simps checkFileInfoCatch_def
        parseCheckFileInfo_def example_exchange_defs exampleParseJSON_def scenarioA_def
        scenarioB_def exampleStorage_def WopiStorage_def setUri_def sanitizeUri_def
        getLocalRootPath_def localRootPath_def RedirectionLimit_def HTTP_OK_def)


text \<open>
  C3. Single flight. While an upload session is set, a call of
  \<^verbatim>\<open>uploadLocalFileToStorageAsync\<close> hands no request to the transport, leaves the object
  (and so the session in flight) as it is, and invokes the caller's callback at once, with
  state \<open>Error\<close> and result FAILED; and \<^verbatim>\<open>queryLocalFileToStorageAsyncUploadState\<close>
  reports \<open>Running\<close> if and only if an upload session is set.
\<close>

theorem uploadLocalFileToStorageAsync_single_flight:
  "(uploadHttpSession st \<noteq> None \<longrightarrow>
      uploadLocalFileToStorageAsync env st lockCtx saveAsPath saveAsFilename rename True now =
        (st, [\<lparr>state = Error, result = UploadResult1 FAILED\<rparr>], []))
   \<and> (state (queryLocalFileToStorageAsyncUploadState st) = Running
        \<longleftrightarrow> uploadHttpSession st \<noteq> None)"
  by (simp add: uploadLocalFileToStorageAsync_def queryLocalFileToStorageAsyncUploadState_def
        ScopedInvokeAsyncUploadCallback_def)

theorem uploadLocalFileToStorageAsync_single_flight_witness:
  "uploadLocalFileToStorageAsync exampleEnv
       (exampleStorage\<lparr>uploadHttpSession := Some exampleSession\<rparr>) exampleLockContext [] [] False True 9 =
     (exampleStorage\<lparr>uploadHttpSession := Some exampleSession\<rparr>,
      [\<lparr>state = Error, result = UploadResult1 FAILED\<rparr>], [])
   \<and> state (queryLocalFileToStorageAsyncUploadState
               (exampleStorage\<lparr>uploadHttpSession := Some exampleSession\<rparr>)) = Running
   \<and> state (queryLocalFileToStorageAsyncUploadState exampleStorage) \<noteq> Running"
  using uploadLocalFileToStorageAsync_single_flight
          [where st = "exampleStorage\<lparr>uploadHttpSession := Some exampleSession\<rparr>"
             and env = exampleEnv and lockCtx = exampleLockContext and saveAsPath = "[]"
             and saveAsFilename = "[]" and rename = False and now = 9]
        uploadLocalFileToStorageAsync_single_flight [where st = exampleStorage, THEN conjunct2]
  by (simp add: exampleStorage_def WopiStorage_def setUri_def)














text \<open>
  C5. \<^verbatim>\<open>WopiStorage::updateLockState\<close>: when the lock context does not support locks it
  returns true with no request sent; on a 200 response it returns true with \<open>isLocked\<close> set
  to the requested value and \<open>lastLockTime\<close> to the current time; on any other response, and
  when the exchange throws a \<^verbatim>\<open>Poco::Exception\<close> (as the transport does) or a
  \<^verbatim>\<open>BadRequestException\<close>, it returns false, the failure reason is what the response
  gave in \<^verbatim>\<open>X-WOPI-LockFailureReason\<close> (empty when there is none), and \<open>isLocked\<close> and
  \<open>lastLockTime\<close> are as before.
\<close>

theorem updateLockState_outcomes:
  "(\<not> supportsLocks ctx \<longrightarrow>
      updateLockState env st ctx lock now = Inr (True, ctx\<lparr>lockFailureReason := []\<rparr>, []))
   \<and> (supportsLocks ctx
        \<and> lockExchange env st (ctx\<lparr>lockFailureReason := []\<rparr>) lock = (Inr resp, sent)
        \<and> statusCode resp = 200 \<longrightarrow>
      updateLockState env st ctx lock now =
        Inr (True, ctx\<lparr>lockFailureReason := [], isLocked := lock, lastLockTime := now\<rparr>, sent))
   \<and> (supportsLocks ctx
        \<and> lockExchange env st (ctx\<lparr>lockFailureReason := []\<rparr>) lock = (Inr resp, sent)
        \<and> statusCode resp \<noteq> 200 \<longrightarrow>
      updateLockState env st ctx lock now =
        Inr (False,
             ctx\<lparr>lockFailureReason :=
                    getHeader ''X-WOPI-LockFailureReason'' [] (responseHeaders resp)\<rparr>,
             sent))
   \<and> (supportsLocks ctx
        \<and> lockExchange env st (ctx\<lparr>lockFailureReason := []\<rparr>) lock = (Inl e, sent)
        \<and> (e = PocoException \<or> e = BadRequestException) \<longrightarrow>
      updateLockState env st ctx lock now = Inr (False, ctx\<lparr>lockFailureReason := []\<rparr>, sent))"
  by (auto simp: updateLockState_def Let_def HTTP_OK_def)

theorem updateLockState_outcomes_witness:
  "updateLockState exampleEnv exampleStorage (exampleLockContext\<lparr>supportsLocks := False\<rparr>) True 7 =
     Inr (True, exampleLockContext\<lparr>supportsLocks := False, lockFailureReason := []\<rparr>, [])
   \<and> updateLockState exampleEnv exampleStorage exampleLockContext True 7 =
     Inr (True, exampleLockContext\<lparr>lockFailureReason := [], isLocked := True, lastLockTime := 7\<rparr>,
          snd (lockExchange exampleEnv exampleStorage (exampleLockContext\<lparr>lockFailureReason := []\<rparr>) True))
   \<and> updateLockState
        (exampleEnv\<lparr>postLock := (\<lambda>request.
            Inr (response 409 [(''X-WOPI-LockFailureReason'', ''locked by another user'')] []))\<rparr>)
        exampleStorage exampleLockContext True 7 =
     Inr (False, exampleLockContext\<lparr>lockFailureReason := ''locked by another user''\<rparr>,
          snd (lockExchange exampleEnv exampleStorage (exampleLockContext\<lparr>lockFailureReason := []\<rparr>) True))
   \<and> updateLockState (exampleEnv\<lparr>postLock := (\<lambda>request. Inl PocoException)\<rparr>)
        exampleStorage exampleLockContext True 7 =
     Inr (False, exampleLockContext\<lparr>lockFailureReason := []\<rparr>,
          snd (lockExchange exampleEnv exampleStorage (exampleLockContext\<lparr>lockFailureReason := []\<rparr>) True))"
proof -
  let ?c = "exampleLockContext\<lparr>lockFailureReason := []\<rparr>"
  let ?sent = "snd (lockExchange exampleEnv exampleStorage ?c True)"
  let ?refuse = "exampleEnv\<lparr>postLock := (\<lambda>request.
            Inr (response 409 [(''X-WOPI-LockFailureReason'', ''locked by another user'')] []))\<rparr>"
  let ?throw = "exampleEnv\<lparr>postLock := (\<lambda>request. Inl PocoException)\<rparr>"
  have 1: "updateLockState exampleEnv exampleStorage (exampleLockContext\<lparr>supportsLocks := False\<rparr>) True 7 =
     Inr (True, exampleLockContext\<lparr>supportsLocks := False, lockFailureReason := []\<rparr>, [])"
    using updateLockState_outcomes [where env = exampleEnv and st = exampleStorage
        and ctx = "exampleLockContext\<lparr>supportsLocks := False\<rparr>" and lock = True and now = 7,
        THEN conjunct1]
    by (simp add: exampleLockContext_def)
  have x2: "lockExchange exampleEnv exampleStorage ?c True = (Inr (response 200 [] []), ?sent)"
    by (simp add: lockExchange_def exampleEnv_def Let_def)
  have 2: "updateLockState exampleEnv exampleStorage exampleLockContext True 7 =
     Inr (True, exampleLockContext\<lparr>lockFailureReason := [], isLocked := True, lastLockTime := 7\<rparr>, ?sent)"
    using updateLockState_outcomes [where env = exampleEnv and st = exampleStorage
        and ctx = exampleLockContext and lock = True and now = 7
        and resp = "response 200 [] []" and sent = ?sent,
        THEN conjunct2, THEN conjunct1] x2
    by (simp add: exampleLockContext_def response_def)
  have x3: "lockExchange ?refuse exampleStorage ?c True =
     (Inr (response 409 [(''X-WOPI-LockFailureReason'', ''locked by another user'')] []), ?sent)"
    by (simp add: lockExchange_def exampleEnv_def Let_def)
  have 3: "updateLockState ?refuse exampleStorage exampleLockContext True 7 =
     Inr (False, exampleLockContext\<lparr>lockFailureReason := ''locked by another user''\<rparr>, ?sent)"
    using updateLockState_outcomes [where env = ?refuse and st = exampleStorage
        and ctx = exampleLockContext and lock = True and now = 7
        and resp = "response 409 [(''X-WOPI-LockFailureReason'', ''locked by another user'')] []"
        and sent = ?sent,
        THEN conjunct2, THEN conjunct2, THEN conjunct1] x3
    by (simp add: exampleLockContext_def response_def getHeader_def)
  have x4: "lockExchange ?throw exampleStorage ?c True = (Inl PocoException, ?sent)"
    by (simp add: lockExchange_def exampleEnv_def Let_def)
  have 4: "updateLockState ?throw exampleStorage exampleLockContext True 7 =
     Inr (False, exampleLockContext\<lparr>lockFailureReason := []\<rparr>, ?sent)"
    using updateLockState_outcomes [where env = ?throw and st = exampleStorage
        and ctx = exampleLockContext and lock = True and now = 7
        and e = PocoException and sent = ?sent,
        THEN conjunct2, THEN conjunct2, THEN conjunct2] x4
    by (simp add: exampleLockContext_def)
  from 1 2 3 4 show ?thesis by simp
qed


lemma allowedAliasCalls_FirstHost_set:
  assumes "\<not> compatMode env" and "AllHosts hosts = {}" and "FirstHost hosts \<noteq> []"
  shows "allowedAliasCalls env hosts us = map (\<lambda>v. authority v = FirstHost hosts) us"
  using assms
  by (induction us) (auto simp: allowedAlias_def)

text \<open>
  What \<^verbatim>\<open>allowedAlias\<close> does, case by case. In compat mode it returns true. Otherwise, with
  \<open>AllHosts\<close> not empty, it returns true exactly when the authority of the URI is a member of
  \<open>AllHosts\<close> or is matched in full by one of its members, taken as a regular expression.
  With \<open>AllHosts\<close> empty and \<open>FirstHost\<close> empty, the call is accepted and the authority is
  stored in \<open>FirstHost\<close>; with \<open>FirstHost\<close> not empty the call is accepted exactly when the
  authority equals it. From empty tables, a first caller whose authority is not empty is
  accepted, and every later call is accepted exactly when its authority is the first
  caller's.
\<close>

lemma allowedAlias_cases:
  "(compatMode env \<longrightarrow> allowedAlias env hosts u = (True, hosts))
   \<and> (\<not> compatMode env \<and> AllHosts hosts \<noteq> {} \<longrightarrow>
        allowedAlias env hosts u =
          (authority u \<in> AllHosts hosts
             \<or> (\<exists>pattern \<in> AllHosts hosts. fullMatch (regex env) pattern (authority u)),
           hosts))
   \<and> (\<not> compatMode env \<and> AllHosts hosts = {} \<and> FirstHost hosts = [] \<longrightarrow>
        allowedAlias env hosts u = (True, hosts\<lparr>FirstHost := authority u\<rparr>))
   \<and> (\<not> compatMode env \<and> AllHosts hosts = {} \<and> FirstHost hosts \<noteq> [] \<longrightarrow>
        allowedAlias env hosts u = (authority u = FirstHost hosts, hosts))
   \<and> (\<not> compatMode env \<and> AllHosts hosts = {} \<and> FirstHost hosts = [] \<and> authority u \<noteq> [] \<longrightarrow>
        allowedAliasCalls env hosts (u # us) = True # map (\<lambda>v. authority v = authority u) us)"
proof (intro conjI impI)
  assume "\<not> compatMode env \<and> AllHosts hosts = {} \<and> FirstHost hosts = [] \<and> authority u \<noteq> []"
  then have a: "\<not> compatMode env" "AllHosts hosts = {}" "FirstHost hosts = []" "authority u \<noteq> []"
    by simp_all
  from a have first: "allowedAlias env hosts u = (True, hosts\<lparr>FirstHost := authority u\<rparr>)"
    by (simp add: allowedAlias_def)
  from a have
    "allowedAliasCalls env (hosts\<lparr>FirstHost := authority u\<rparr>) us =
       map (\<lambda>v. authority v = FirstHost (hosts\<lparr>FirstHost := authority u\<rparr>)) us"
    by (intro allowedAliasCalls_FirstHost_set) simp_all
  with first show "allowedAliasCalls env hosts (u # us) = True # map (\<lambda>v. authority v = authority u) us"
    by simp
qed (auto simp: allowedAlias_def matchRegex_def)

text \<open>
  The cases on the example engine. A pattern that throws is skipped; a pattern that matches
  only a part of the authority, at its start (\<open>wopi\<close>) or further on (\<open>example\<close>), does not
  admit it; a pattern that matches all of it in another case (\<open>WOPI.EXAMPLE\<close>) does.
\<close>

lemma allowedAlias_examples:
  "allowedAlias (exampleAliasEnv\<lparr>aliasGroupsMode := Some ''compat''\<rparr>) noHosts (examplePath ''/x'')
     = (True, noHosts)
   \<and> allowedAlias exampleAliasEnv \<lparr>AllHosts = {''wopi.example'', ''[''}, FirstHost = []\<rparr>
        (examplePath ''/x'') = (True, \<lparr>AllHosts = {''wopi.example'', ''[''}, FirstHost = []\<rparr>)
   \<and> allowedAlias exampleAliasEnv \<lparr>AllHosts = {''other.example'', ''[''}, FirstHost = []\<rparr>
        (examplePath ''/x'') = (False, \<lparr>AllHosts = {''other.example'', ''[''}, FirstHost = []\<rparr>)
   \<and> allowedAlias exampleAliasEnv \<lparr>AllHosts = {''other.example'', ''.*''}, FirstHost = []\<rparr>
        (examplePath ''/x'') = (True, \<lparr>AllHosts = {''other.example'', ''.*''}, FirstHost = []\<rparr>)
   \<and> allowedAlias exampleAliasEnv \<lparr>AllHosts = {''example'', ''wopi''}, FirstHost = []\<rparr>
        (examplePath ''/x'') = (False, \<lparr>AllHosts = {''example'', ''wopi''}, FirstHost = []\<rparr>)
   \<and> allowedAlias exampleAliasEnv \<lparr>AllHosts = {''WOPI.EXAMPLE''}, FirstHost = []\<rparr>
        (examplePath ''/x'') = (True, \<lparr>AllHosts = {''WOPI.EXAMPLE''}, FirstHost = []\<rparr>)
   \<and> allowedAlias exampleAliasEnv noHosts (examplePath ''/x'')
     = (True, noHosts\<lparr>FirstHost := ''wopi.example''\<rparr>)
   \<and> allowedAlias exampleAliasEnv (noHosts\<lparr>FirstHost := ''wopi.example''\<rparr>)
        ((examplePath ''/y'')\<lparr>authority := ''evil.example''\<rparr>)
     = (False, noHosts\<lparr>FirstHost := ''wopi.example''\<rparr>)
   \<and> allowedAliasCalls exampleAliasEnv noHosts
        [examplePath ''/x'', (examplePath ''/y'')\<lparr>authority := ''evil.example''\<rparr>, examplePath ''/z'']
     = [True, False, True]"
proof -
  have nc: "\<not> compatMode exampleAliasEnv"
    by (simp add: compatMode_def exampleAliasEnv_def)
  have c: "compatMode (exampleAliasEnv\<lparr>aliasGroupsMode := Some ''compat''\<rparr>)"
    by (simp add: compatMode_def exampleAliasEnv_def)
  have 1: "allowedAlias (exampleAliasEnv\<lparr>aliasGroupsMode := Some ''compat''\<rparr>) noHosts (examplePath ''/x'')
     = (True, noHosts)"
    using allowedAlias_cases [where env = "exampleAliasEnv\<lparr>aliasGroupsMode := Some ''compat''\<rparr>"
        and hosts = noHosts and u = "examplePath ''/x''", THEN conjunct1] c
    by simp
  have 2: "allowedAlias exampleAliasEnv \<lparr>AllHosts = {''wopi.example'', ''[''}, FirstHost = []\<rparr>
        (examplePath ''/x'') = (True, \<lparr>AllHosts = {''wopi.example'', ''[''}, FirstHost = []\<rparr>)"
    using allowedAlias_cases [where env = exampleAliasEnv
        and hosts = "\<lparr>AllHosts = {''wopi.example'', ''[''}, FirstHost = []\<rparr>"
        and u = "examplePath ''/x''", THEN conjunct2, THEN conjunct1] nc
    by (simp add: examplePath_def)
  have 3: "allowedAlias exampleAliasEnv \<lparr>AllHosts = {''other.example'', ''[''}, FirstHost = []\<rparr>
        (examplePath ''/x'') = (False, \<lparr>AllHosts = {''other.example'', ''[''}, FirstHost = []\<rparr>)"
    using allowedAlias_cases [where env = exampleAliasEnv
        and hosts = "\<lparr>AllHosts = {''other.example'', ''[''}, FirstHost = []\<rparr>"
        and u = "examplePath ''/x''", THEN conjunct2, THEN conjunct1] nc
    by (simp add: examplePath_def fullMatch_def exampleAliasEnv_def)
  have 4: "allowedAlias exampleAliasEnv \<lparr>AllHosts = {''other.example'', ''.*''}, FirstHost = []\<rparr>
        (examplePath ''/x'') = (True, \<lparr>AllHosts = {''other.example'', ''.*''}, FirstHost = []\<rparr>)"
    using allowedAlias_cases [where env = exampleAliasEnv
        and hosts = "\<lparr>AllHosts = {''other.example'', ''.*''}, FirstHost = []\<rparr>"
        and u = "examplePath ''/x''", THEN conjunct2, THEN conjunct1] nc
    by (simp add: examplePath_def fullMatch_def exampleAliasEnv_def)
  have 8: "allowedAlias exampleAliasEnv \<lparr>AllHosts = {''example'', ''wopi''}, FirstHost = []\<rparr>
        (examplePath ''/x'') = (False, \<lparr>AllHosts = {''example'', ''wopi''}, FirstHost = []\<rparr>)"
    using allowedAlias_cases [where env = exampleAliasEnv
        and hosts = "\<lparr>AllHosts = {''example'', ''wopi''}, FirstHost = []\<rparr>"
        and u = "examplePath ''/x''", THEN conjunct2, THEN conjunct1] nc
    by (simp add: examplePath_def fullMatch_def exampleAliasEnv_def)
  have 9: "allowedAlias exampleAliasEnv \<lparr>AllHosts = {''WOPI.EXAMPLE''}, FirstHost = []\<rparr>
        (examplePath ''/x'') = (True, \<lparr>AllHosts = {''WOPI.EXAMPLE''}, FirstHost = []\<rparr>)"
    using allowedAlias_cases [where env = exampleAliasEnv
        and hosts = "\<lparr>AllHosts = {''WOPI.EXAMPLE''}, FirstHost = []\<rparr>"
        and u = "examplePath ''/x''", THEN conjunct2, THEN conjunct1] nc
    by (simp add: examplePath_def fullMatch_def exampleAliasEnv_def)
  have 5: "allowedAlias exampleAliasEnv noHosts (examplePath ''/x'')
     = (True, noHosts\<lparr>FirstHost := ''wopi.example''\<rparr>)"
    using allowedAlias_cases [where env = exampleAliasEnv and hosts = noHosts
        and u = "examplePath ''/x''", THEN conjunct2, THEN conjunct2, THEN conjunct1] nc
    by (simp add: examplePath_def noHosts_def)
  have 6: "allowedAlias exampleAliasEnv (noHosts\<lparr>FirstHost := ''wopi.example''\<rparr>)
        ((examplePath ''/y'')\<lparr>authority := ''evil.example''\<rparr>)
     = (False, noHosts\<lparr>FirstHost := ''wopi.example''\<rparr>)"
    using allowedAlias_cases [where env = exampleAliasEnv
        and hosts = "noHosts\<lparr>FirstHost := ''wopi.example''\<rparr>"
        and u = "(examplePath ''/y'')\<lparr>authority := ''evil.example''\<rparr>",
        THEN conjunct2, THEN conjunct2, THEN conjunct2, THEN conjunct1] nc
    by (simp add: examplePath_def noHosts_def)
  have 7: "allowedAliasCalls exampleAliasEnv noHosts
        [examplePath ''/x'', (examplePath ''/y'')\<lparr>authority := ''evil.example''\<rparr>, examplePath ''/z'']
     = [True, False, True]"
    using allowedAlias_cases [where env = exampleAliasEnv and hosts = noHosts
        and u = "examplePath ''/x''"
        and us = "[(examplePath ''/y'')\<lparr>authority := ''evil.example''\<rparr>, examplePath ''/z'']",
        THEN conjunct2, THEN conjunct2, THEN conjunct2, THEN conjunct2] nc
    by (simp add: examplePath_def noHosts_def)
  from 1 2 3 4 5 6 7 8 9 show ?thesis by simp
qed

text \<open>
  C6. With no alias groups configured, the first caller's authority is recorded as
  \<open>FirstHost\<close> and accepted, and every later call is accepted exactly when its authority is
  that one: only the first-seen authority is ever authorised. The code breaks this:
  \<open>FirstHost\<close> holds the empty string until it is set, so a first caller whose authority is
  empty is accepted and nothing is recorded; the next caller is accepted and recorded
  whatever its authority, and the first caller is refused from then on. Here four calls are
  made from empty tables, with the authorities \<open>""\<close>, \<open>evil.example\<close>, \<open>""\<close> and
  \<open>wopi.example\<close>: two different authorities are authorised, and the first-seen one is
  refused on its second call.
\<close>

theorem allowedAlias_empty_authority_not_recorded:
  "allowedAliasCalls exampleAliasEnv noHosts
     [(examplePath ''/x'')\<lparr>authority := []\<rparr>, (examplePath ''/y'')\<lparr>authority := ''evil.example''\<rparr>,
      (examplePath ''/x'')\<lparr>authority := []\<rparr>, examplePath ''/z'']
     = [True, True, False, False]"
  by (simp add: allowedAlias_def compatMode_def exampleAliasEnv_def noHosts_def examplePath_def)


text \<open>
  C7. \<^verbatim>\<open>downloadStorageFileToLocal\<close> resolves its source in this order. With a template URI
  it is the download from that URI, whatever its outcome. Otherwise, with a FileUrl from
  the metadata, that is tried first: its success is the result; a storage-space-low failure
  is the result at once, with no further request; any other failure is followed by the
  download from the \<^verbatim>\<open>/contents\<close> URL, whose outcome is the result. With neither, it is the
  download from the \<^verbatim>\<open>/contents\<close> URL, whatever its outcome.
\<close>

theorem downloadStorageFileToLocal_order:
  "(templateUri \<noteq> [] \<longrightarrow>
      downloadStorageFileToLocal env st templateUri = downloadFrom env st templateUri)
   \<and> (downloadFrom env st (fileUrl st) = (Inr localPath, st1, sent1) \<and> fileUrl st \<noteq> [] \<longrightarrow>
      downloadStorageFileToLocal env st [] = (Inr localPath, st1, sent1))
   \<and> (downloadFrom env st (fileUrl st) = (Inl e, st1, sent1) \<and> fileUrl st \<noteq> []
        \<and> isStorageSpaceLow e \<longrightarrow>
      downloadStorageFileToLocal env st [] = (Inl e, st1, sent1))
   \<and> (downloadFrom env st (fileUrl st) = (Inl e, st1, sent1) \<and> fileUrl st \<noteq> []
        \<and> \<not> isStorageSpaceLow e \<longrightarrow>
      downloadStorageFileToLocal env st [] =
        (fst (downloadDefault env st1), fst (snd (downloadDefault env st1)),
         sent1 @ snd (snd (downloadDefault env st1))))
   \<and> (fileUrl st = [] \<longrightarrow> downloadStorageFileToLocal env st [] = downloadDefault env st)
   \<and> downloadDefault env st =
       downloadDocument env st
         (authorizeURI env ((getUri st)\<lparr>path := path (getUri st) @ ''/contents''\<rparr>))
         (toString env ((getUri st)\<lparr>path := anonymizeUrl env (path (getUri st)) @ ''/contents''\<rparr>))
         21"
  by (simp add: downloadStorageFileToLocal_def downloadDefault_def contentsUri_def
        RedirectionLimit_def Let_def split: prod.splits)

lemma example_download_contents:
  "downloadDefault exampleEnv exampleStorage =
     (Inr ''/user/docs/1/doc.odt'',
      exampleStorage\<lparr>jailedFilePath := ''/jails/user/docs/1/doc.odt'',
                     jailedFilePathAnonym := ''/jails/user/docs/1/doc.odt'',
                     isDownloaded := True\<rparr>,
      [\<lparr>verb = ''GET'', requestUri = examplePath ''/wopi/files/1/contents'',
        requestHeaders = [(''User-Agent'', ''COOLWSD'')], bodyFile = []\<rparr>])"
  by (simp add: downloadDocument.simps downloadDefault_def contentsUri_def getUri_def
        exampleStorage_def WopiStorage_def setUri_def sanitizeUri_def examplePath_def
        exampleEnv_def exampleHost_def response_def getLocalRootPath_def localRootPath_def RedirectionLimit_def
        HTTP_OK_def Let_def)


lemmas example_download_defs =
  downloadDocument.simps getHeader_def downloadFrom_def downloadDefault_def contentsUri_def getUri_def exampleStorage_def
  WopiStorage_def setUri_def sanitizeUri_def examplePath_def exampleEnv_def
  exampleHost_def response_def getLocalRootPath_def localRootPath_def RedirectionLimit_def
  HTTP_OK_def isRedirection_def HTTP_FOUND_def HTTP_MOVED_PERMANENTLY_def
  HTTP_TEMPORARY_REDIRECT_def HTTP_PERMANENT_REDIRECT_def Let_def

lemma example_download_template:
  "fst (downloadFrom exampleEnv exampleStorage ''/wopi/files/a'') = Inr ''/user/docs/1/doc.odt''
   \<and> map (\<lambda>r. path (requestUri r)) (snd (snd (downloadFrom exampleEnv exampleStorage ''/wopi/files/a'')))
       = [''/wopi/files/a'', ''/wopi/files/b'', ''/wopi/files/1'']"
  by (simp add: example_download_defs)

lemma example_download_fileUrl:
  "fst (downloadFrom exampleEnv (exampleStorage\<lparr>fileUrl := ''/wopi/files/b''\<rparr>) ''/wopi/files/b'')
     = Inr ''/user/docs/1/doc.odt''"
  by (simp add: example_download_defs)

lemma example_download_low_space:
  "fst (downloadFrom (exampleEnv\<lparr>checkDiskSpace := (\<lambda>p. False)\<rparr>)
          (exampleStorage\<lparr>fileUrl := ''/wopi/files/b''\<rparr>) ''/wopi/files/b'')
     = Inl (StorageSpaceLowException ''Low disk space for /jails/user/docs/1/doc.odt'')
   \<and> snd (snd (downloadFrom (exampleEnv\<lparr>checkDiskSpace := (\<lambda>p. False)\<rparr>)
          (exampleStorage\<lparr>fileUrl := ''/wopi/files/b''\<rparr>) ''/wopi/files/b'')) = []"
  by (simp add: example_download_defs)

lemma example_download_missing:
  "fst (downloadFrom exampleEnv (exampleStorage\<lparr>fileUrl := ''/missing''\<rparr>) ''/missing'')
     = Inl (StorageConnectionException ''WOPI::GetFile [/missing] failed: '')
   \<and> map (\<lambda>r. path (requestUri r))
        (snd (snd (downloadFrom exampleEnv (exampleStorage\<lparr>fileUrl := ''/missing''\<rparr>) ''/missing'')))
       = [''/missing'']
   \<and> fst (downloadDefault exampleEnv
            (fst (snd (downloadFrom exampleEnv (exampleStorage\<lparr>fileUrl := ''/missing''\<rparr>) ''/missing''))))
       = Inr ''/user/docs/1/doc.odt''
   \<and> map (\<lambda>r. path (requestUri r))
        (snd (snd (downloadDefault exampleEnv
            (fst (snd (downloadFrom exampleEnv (exampleStorage\<lparr>fileUrl := ''/missing''\<rparr>) ''/missing''))))))
       = [''/wopi/files/1/contents'']"
  by (simp add: example_download_defs)

theorem downloadStorageFileToLocal_order_witness:
  "fst (downloadStorageFileToLocal exampleEnv exampleStorage ''/wopi/files/a'')
     = Inr ''/user/docs/1/doc.odt''
   \<and> map (\<lambda>r. path (requestUri r))
        (snd (snd (downloadStorageFileToLocal exampleEnv exampleStorage ''/wopi/files/a'')))
       = [''/wopi/files/a'', ''/wopi/files/b'', ''/wopi/files/1'']
   \<and> fst (downloadStorageFileToLocal exampleEnv (exampleStorage\<lparr>fileUrl := ''/wopi/files/b''\<rparr>) [])
       = Inr ''/user/docs/1/doc.odt''
   \<and> fst (downloadStorageFileToLocal (exampleEnv\<lparr>checkDiskSpace := (\<lambda>p. False)\<rparr>)
            (exampleStorage\<lparr>fileUrl := ''/wopi/files/b''\<rparr>) [])
       = Inl (StorageSpaceLowException ''Low disk space for /jails/user/docs/1/doc.odt'')
   \<and> snd (snd (downloadStorageFileToLocal (exampleEnv\<lparr>checkDiskSpace := (\<lambda>p. False)\<rparr>)
            (exampleStorage\<lparr>fileUrl := ''/wopi/files/b''\<rparr>) [])) = []
   \<and> fst (downloadStorageFileToLocal exampleEnv (exampleStorage\<lparr>fileUrl := ''/missing''\<rparr>) [])
       = Inr ''/user/docs/1/doc.odt''
   \<and> map (\<lambda>r. path (requestUri r))
        (snd (snd (downloadStorageFileToLocal exampleEnv (exampleStorage\<lparr>fileUrl := ''/missing''\<rparr>) [])))
       = [''/missing'', ''/wopi/files/1/contents'']
   \<and> fst (downloadStorageFileToLocal exampleEnv exampleStorage []) = Inr ''/user/docs/1/doc.odt''
   \<and> map (\<lambda>r. path (requestUri r))
        (snd (snd (downloadStorageFileToLocal exampleEnv exampleStorage [])))
       = [''/wopi/files/1/contents'']"
proof -
  let ?b = "exampleStorage\<lparr>fileUrl := ''/wopi/files/b''\<rparr>"
  let ?m = "exampleStorage\<lparr>fileUrl := ''/missing''\<rparr>"
  let ?low = "exampleEnv\<lparr>checkDiskSpace := (\<lambda>p. False)\<rparr>"
  have fb: "fileUrl ?b = ''/wopi/files/b''" "fileUrl ?m = ''/missing''" "fileUrl exampleStorage = []"
    by (simp_all add: exampleStorage_def WopiStorage_def setUri_def)
  have 1: "downloadStorageFileToLocal exampleEnv exampleStorage ''/wopi/files/a''
             = downloadFrom exampleEnv exampleStorage ''/wopi/files/a''"
    using downloadStorageFileToLocal_order [where env = exampleEnv and st = exampleStorage
        and templateUri = "''/wopi/files/a''", THEN conjunct1]
    by simp
  have 2: "downloadStorageFileToLocal exampleEnv ?b []
             = (Inr ''/user/docs/1/doc.odt'',
                fst (snd (downloadFrom exampleEnv ?b ''/wopi/files/b'')),
                snd (snd (downloadFrom exampleEnv ?b ''/wopi/files/b'')))"
    using downloadStorageFileToLocal_order [where env = exampleEnv and st = ?b
        and localPath = "''/user/docs/1/doc.odt''"
        and ?st1.0 = "fst (snd (downloadFrom exampleEnv ?b ''/wopi/files/b''))"
        and ?sent1.0 = "snd (snd (downloadFrom exampleEnv ?b ''/wopi/files/b''))",
        THEN conjunct2, THEN conjunct1]
      triple_collapse [OF example_download_fileUrl] fb
    by simp
  have 3: "downloadStorageFileToLocal ?low ?b []
             = (Inl (StorageSpaceLowException ''Low disk space for /jails/user/docs/1/doc.odt''),
                fst (snd (downloadFrom ?low ?b ''/wopi/files/b'')),
                snd (snd (downloadFrom ?low ?b ''/wopi/files/b'')))"
    using downloadStorageFileToLocal_order [where env = ?low and st = ?b
        and e = "StorageSpaceLowException ''Low disk space for /jails/user/docs/1/doc.odt''"
        and ?st1.0 = "fst (snd (downloadFrom ?low ?b ''/wopi/files/b''))"
        and ?sent1.0 = "snd (snd (downloadFrom ?low ?b ''/wopi/files/b''))",
        THEN conjunct2, THEN conjunct2, THEN conjunct1]
      triple_collapse [OF example_download_low_space [THEN conjunct1]] fb
    by simp
  have 4: "downloadStorageFileToLocal exampleEnv ?m []
             = (fst (downloadDefault exampleEnv (fst (snd (downloadFrom exampleEnv ?m ''/missing'')))),
                fst (snd (downloadDefault exampleEnv (fst (snd (downloadFrom exampleEnv ?m ''/missing''))))),
                snd (snd (downloadFrom exampleEnv ?m ''/missing''))
                @ snd (snd (downloadDefault exampleEnv (fst (snd (downloadFrom exampleEnv ?m ''/missing''))))))"
    using downloadStorageFileToLocal_order [where env = exampleEnv and st = ?m
        and e = "StorageConnectionException ''WOPI::GetFile [/missing] failed: ''"
        and ?st1.0 = "fst (snd (downloadFrom exampleEnv ?m ''/missing''))"
        and ?sent1.0 = "snd (snd (downloadFrom exampleEnv ?m ''/missing''))",
        THEN conjunct2, THEN conjunct2, THEN conjunct2, THEN conjunct1]
      triple_collapse [OF example_download_missing [THEN conjunct1]] fb
    by simp
  have 5: "downloadStorageFileToLocal exampleEnv exampleStorage [] = downloadDefault exampleEnv exampleStorage"
    using downloadStorageFileToLocal_order [where env = exampleEnv and st = exampleStorage,
        THEN conjunct2, THEN conjunct2, THEN conjunct2, THEN conjunct2, THEN conjunct1] fb
    by simp
  show ?thesis
    unfolding 1 2 3 4 5
    using example_download_template example_download_low_space example_download_missing
    by (simp add: example_download_contents examplePath_def)
qed


lemma wrap64_in_range:
  assumes "- 9223372036854775808 \<le> d" and "d < 9223372036854775808"
  shows "wrap64 d = d"
proof -
  have "0 \<le> d + 9223372036854775808" and "d + 9223372036854775808 < 18446744073709551616"
    using assms by simp_all
  then have "(d + 9223372036854775808) mod 18446744073709551616 = d + 9223372036854775808"
    by (rule mod_pos_pos_trivial)
  then show ?thesis by (simp add: wrap64_def)
qed

lemma int_le_div_numeral:
  fixes r d :: int
  shows "r \<le> d div 1000000000 \<longleftrightarrow> r * 1000000000 \<le> d"
proof
  assume "r \<le> d div 1000000000"
  then have "r * 1000000000 \<le> (d div 1000000000) * 1000000000" by simp
  also have "\<dots> \<le> d"
    using div_mult_mod_eq [of d 1000000000] pos_mod_sign [of 1000000000 d] by linarith
  finally show "r * 1000000000 \<le> d" .
next
  assume "r * 1000000000 \<le> d"
  then have "(r * 1000000000) div 1000000000 \<le> d div 1000000000"
    by (rule zdiv_mono1) simp
  then show "r \<le> d div 1000000000" by simp
qed

lemma duration_cast_seconds_ge:
  assumes "0 < r"
  shows "r \<le> duration_cast_seconds d \<longleftrightarrow> r * 1000000000 \<le> d"
proof (cases "d < 0")
  case True
  have "0 \<le> (- d) div 1000000000" using True by (simp add: pos_imp_zdiv_nonneg_iff)
  then have "duration_cast_seconds d \<le> 0" using True by (simp add: duration_cast_seconds_def)
  moreover have "0 < r * 1000000000" using assms by simp
  ultimately show ?thesis using assms True by linarith
next
  case False
  then have "duration_cast_seconds d = d div 1000000000" by (simp add: duration_cast_seconds_def)
  then show ?thesis by (simp add: int_le_div_numeral)
qed

lemma needsRefresh_elapsed:
  "needsRefresh conf ctx now \<longleftrightarrow>
     supportsLocks ctx \<and> isLocked ctx \<and> 0 < refreshSeconds conf \<and>
     refreshSeconds conf * 1000000000 \<le> wrap64 (now - lastLockTime ctx)"
  using duration_cast_seconds_ge [of "refreshSeconds conf" "wrap64 (now - lastLockTime ctx)"]
  by (auto simp: needsRefresh_def)

lemma updateLockState_True_fresh:
  assumes "updateLockState env st ctx0 lock now = Inr (True, ctx', sent)"
  shows "\<not> supportsLocks ctx' \<or> lastLockTime ctx' = now"
  using assms
  by (auto simp: updateLockState_def Let_def split: if_splits sum.splits prod.splits)

text \<open>
  C8. \<^verbatim>\<open>needsRefresh(now)\<close> is true if and only if locks are supported, the context is locked,
  the configured refresh interval is positive and the time elapsed since \<open>lastLockTime\<close>, as
  the 64-bit subtraction of the two time points gives it in nanoseconds, is at least that
  interval; where the difference of the two time points is representable in 64 bits, as it
  is for any two readings of one steady clock, that is the true elapsed time. The interval
  is the configured value, and 900 seconds when none is configured. Whenever
  \<^verbatim>\<open>updateLockState\<close> returns true at time \<open>now\<close>, the context it leaves does not need a
  refresh at \<open>now\<close>.
\<close>

theorem needsRefresh_iff:
  "(needsRefresh conf ctx now \<longleftrightarrow>
      supportsLocks ctx \<and> isLocked ctx \<and> 0 < refreshSeconds conf \<and>
      refreshSeconds conf * 1000000000 \<le> wrap64 (now - lastLockTime ctx))
   \<and> (- 9223372036854775808 \<le> now - lastLockTime ctx
        \<and> now - lastLockTime ctx < 9223372036854775808 \<longrightarrow>
      (needsRefresh conf ctx now \<longleftrightarrow>
         supportsLocks ctx \<and> isLocked ctx \<and> 0 < refreshSeconds conf \<and>
         refreshSeconds conf * 1000000000 \<le> now - lastLockTime ctx))
   \<and> refreshSeconds None = 900
   \<and> refreshSeconds (Some v) = v
   \<and> (updateLockState env st ctx0 lock now = Inr (True, ctx', sent)
        \<longrightarrow> \<not> needsRefresh conf ctx' now)"
proof (intro conjI impI)
  show "needsRefresh conf ctx now \<longleftrightarrow>
      supportsLocks ctx \<and> isLocked ctx \<and> 0 < refreshSeconds conf \<and>
      refreshSeconds conf * 1000000000 \<le> wrap64 (now - lastLockTime ctx)"
    by (rule needsRefresh_elapsed)
  show "refreshSeconds None = 900" by (simp add: refreshSeconds_def)
  show "refreshSeconds (Some v) = v" by (simp add: refreshSeconds_def)
next
  assume "- 9223372036854775808 \<le> now - lastLockTime ctx
        \<and> now - lastLockTime ctx < 9223372036854775808"
  then have "wrap64 (now - lastLockTime ctx) = now - lastLockTime ctx"
    by (intro wrap64_in_range) simp_all
  then show "needsRefresh conf ctx now \<longleftrightarrow>
         supportsLocks ctx \<and> isLocked ctx \<and> 0 < refreshSeconds conf \<and>
         refreshSeconds conf * 1000000000 \<le> now - lastLockTime ctx"
    by (simp add: needsRefresh_elapsed)
next
  assume a: "updateLockState env st ctx0 lock now = Inr (True, ctx', sent)"
  have "wrap64 0 = 0" by (simp add: wrap64_def)
  with updateLockState_True_fresh [OF a] show "\<not> needsRefresh conf ctx' now"
    by (auto simp: needsRefresh_elapsed)
qed

lemma exampleLock:
  "updateLockState exampleEnv exampleStorage exampleLockContext True 5000000000 =
     Inr (True, exampleLockContext\<lparr>lockFailureReason := [], isLocked := True, lastLockTime := 5000000000\<rparr>,
          snd (lockExchange exampleEnv exampleStorage (exampleLockContext\<lparr>lockFailureReason := []\<rparr>) True))"
  by (simp add: updateLockState_def lockExchange_def exampleEnv_def exampleLockContext_def response_def HTTP_OK_def Let_def)

theorem needsRefresh_iff_witness:
  "updateLockState exampleEnv exampleStorage exampleLockContext True 5000000000 =
     Inr (True, exampleLockContext\<lparr>lockFailureReason := [], isLocked := True, lastLockTime := 5000000000\<rparr>,
          snd (lockExchange exampleEnv exampleStorage (exampleLockContext\<lparr>lockFailureReason := []\<rparr>) True))
   \<and> \<not> needsRefresh None (exampleLockContext\<lparr>lockFailureReason := [], isLocked := True, lastLockTime := 5000000000\<rparr>) 5000000000
   \<and> \<not> needsRefresh None (exampleLockContext\<lparr>lockFailureReason := [], isLocked := True, lastLockTime := 5000000000\<rparr>) 904999999999
   \<and> needsRefresh None (exampleLockContext\<lparr>lockFailureReason := [], isLocked := True, lastLockTime := 5000000000\<rparr>) 905000000000
   \<and> \<not> needsRefresh (Some 60) (exampleLockContext\<lparr>lockFailureReason := [], isLocked := True, lastLockTime := 5000000000\<rparr>) 64999999999
   \<and> needsRefresh (Some 60) (exampleLockContext\<lparr>lockFailureReason := [], isLocked := True, lastLockTime := 5000000000\<rparr>) 65000000000
   \<and> \<not> needsRefresh (Some 0) (exampleLockContext\<lparr>lockFailureReason := [], isLocked := True, lastLockTime := 5000000000\<rparr>) 905000000000
   \<and> \<not> needsRefresh None (exampleLockContext\<lparr>isLocked := True, lastLockTime := - 9223372036854775808\<rparr>) 1"
proof -
  let ?c = "exampleLockContext\<lparr>lockFailureReason := [], isLocked := True, lastLockTime := 5000000000\<rparr>"
  let ?old = "exampleLockContext\<lparr>isLocked := True, lastLockTime := - 9223372036854775808\<rparr>"
  have fresh: "\<not> needsRefresh None ?c 5000000000"
    using needsRefresh_iff [where conf = None and now = 5000000000 and env = exampleEnv
        and st = exampleStorage and ?ctx0.0 = exampleLockContext and lock = True and ctx' = ?c,
        THEN conjunct2, THEN conjunct2, THEN conjunct2, THEN conjunct2] exampleLock
    by simp
  have early: "\<not> needsRefresh None ?c 904999999999"
    using needsRefresh_iff [where conf = None and now = 904999999999 and ctx = ?c,
        THEN conjunct2, THEN conjunct1]
      needsRefresh_iff [where conf = None, THEN conjunct2, THEN conjunct2, THEN conjunct1]
    by (simp add: exampleLockContext_def)
  have due: "needsRefresh None ?c 905000000000"
    using needsRefresh_iff [where conf = None and now = 905000000000 and ctx = ?c,
        THEN conjunct2, THEN conjunct1]
      needsRefresh_iff [where conf = None, THEN conjunct2, THEN conjunct2, THEN conjunct1]
    by (simp add: exampleLockContext_def)
  have c60: "refreshSeconds (Some 60) = 60"
    by (rule needsRefresh_iff [where v = 60, THEN conjunct2, THEN conjunct2, THEN conjunct2,
               THEN conjunct1])
  have c0: "refreshSeconds (Some 0) = 0"
    by (rule needsRefresh_iff [where v = 0, THEN conjunct2, THEN conjunct2, THEN conjunct2,
               THEN conjunct1])
  have early60: "\<not> needsRefresh (Some 60) ?c 64999999999"
    using needsRefresh_iff [where conf = "Some 60" and now = 64999999999 and ctx = ?c,
        THEN conjunct2, THEN conjunct1] c60
    by (simp add: exampleLockContext_def)
  have due60: "needsRefresh (Some 60) ?c 65000000000"
    using needsRefresh_iff [where conf = "Some 60" and now = 65000000000 and ctx = ?c,
        THEN conjunct2, THEN conjunct1] c60
    by (simp add: exampleLockContext_def)
  have never0: "\<not> needsRefresh (Some 0) ?c 905000000000"
    using needsRefresh_iff [where conf = "Some 0" and now = 905000000000 and ctx = ?c,
        THEN conjunct2, THEN conjunct1] c0
    by (simp add: exampleLockContext_def)
  have wrapped: "\<not> needsRefresh None ?old 1"
    using needsRefresh_iff [where conf = None and now = 1 and ctx = ?old, THEN conjunct1]
      needsRefresh_iff [where conf = None, THEN conjunct2, THEN conjunct2, THEN conjunct1]
    by (simp add: exampleLockContext_def wrap64_def)
  from exampleLock fresh early due early60 due60 never0 wrapped show ?thesis by simp
qed


text \<open>
  C9. For every authorization, lock context, save-as path, save-as filename and rename flag,
  the synchronous \<^verbatim>\<open>WopiStorage::uploadLocalFileToStorage\<close> returns an upload result of kind
  FAILED, issues no network request and leaves the storage object as it was.
\<close>

theorem uploadLocalFileToStorage_always_FAILED:
  "getResult (fst (uploadLocalFileToStorage st auth lockCtx saveAsPath saveAsFilename rename)) = FAILED
   \<and> snd (snd (uploadLocalFileToStorage st auth lockCtx saveAsPath saveAsFilename rename)) = []
   \<and> fst (snd (uploadLocalFileToStorage st auth lockCtx saveAsPath saveAsFilename rename)) = st"
  by (simp add: uploadLocalFileToStorage_def UploadResult1_def)


lemma clearAccessToken_no_token:
  "''access_token'' \<notin> fst ` set params \<Longrightarrow> clearAccessToken params = params"
  by (induction params) auto

lemma clearAccessToken_first:
  "''access_token'' \<notin> fst ` set before \<Longrightarrow>
     clearAccessToken (before @ (''access_token'', v) # after) =
       before @ (''access_token'', []) # after"
  by (induction before) auto

lemma clearAccessToken_keys:
  "map fst (clearAccessToken params) = map fst params"
  by (induction params) auto

lemma clearAccessToken_others:
  "k \<noteq> ''access_token'' \<Longrightarrow>
     filter (\<lambda>p. fst p = k) (clearAccessToken params) = filter (\<lambda>p. fst p = k) params"
  by (induction params) auto

text \<open>
  C10. The stored URI of a storage object never carries a non-empty value for a query
  parameter named \<^verbatim>\<open>access_token\<close>. The code breaks this: \<^verbatim>\<open>sanitizeUri\<close> stops at the
  first parameter of that name, so a URI that carries the parameter twice keeps the second
  token. Here the constructor is run on such a URI, and the stored URI is read back.
\<close>

theorem sanitizeUri_keeps_second_access_token:
  "queryParameters
     (getUri (WopiStorage
        ((examplePath ''/wopi/files/1'')
           \<lparr>queryParameters := [(''access_token'', ''first''), (''access_token'', ''second'')]\<rparr>)
        ''/jails'' ''/user/docs/1''))
   = [(''access_token'', []), (''access_token'', ''second'')]"
  by (simp add: getUri_def WopiStorage_def setUri_def sanitizeUri_def examplePath_def)


end
